theory Spec2Isabelle
  imports Main
begin

section \<open>Python values, exceptions and external objects\<close>

text \<open>
  The module \<open>aqtlib/pg.py\<close> is a thin layer over SQLAlchemy (schema and query
  rendering) and asyncpg (connection pool and query execution). The Python
  values that pass through it are modelled by \<open>pyval\<close>. \<open>PInt i\<close> and \<open>PStr s\<close> are
  instances of \<open>int\<close> and \<open>str\<close> themselves. \<open>PIntSub i t\<close> is an instance of a
  subclass of \<open>int\<close> other than \<open>bool\<close> (a member of an \<open>IntEnum\<close>, say) with the
  integer value \<open>i\<close>, and \<open>PStrSub s t\<close> an instance of a subclass of \<open>str\<close> with
  the characters \<open>s\<close>; a subclass may define \<open>__str__\<close>, and \<open>t\<close> is the text that
  \<open>str()\<close> gives for the instance. \<open>PObj t\<close> stands for any other object (a
  datetime, a row, a list of rows, ...), again with the text \<open>t\<close> of its \<open>str()\<close>.
  An exception is the name of its class and its message.
\<close>

datatype pyval =
    PNone
  | PBool bool
  | PInt int
  | PIntSub int string
  | PStr string
  | PStrSub string string
  | PObj string

datatype exn = Exn (exn_class: string) (exn_msg: string)

datatype engine = Engine nat
datatype pool = Pool nat
datatype conn = Conn nat
datatype metadata = MetaData nat
datatype statement = Statement nat

text \<open>
  The \<open>query\<close> argument of the four query operations: a \<open>str\<close>, a SQLAlchemy
  statement (it has \<open>compile\<close>), a \<open>sqlalchemy.orm.Query\<close> (its \<open>.statement\<close> is
  taken), or any other object, named by its type.
\<close>

datatype query = QStr string | QStatement statement | QOrmQuery statement | QOther string

subsection \<open>\<open>str()\<close> on the built-in values\<close>

function str_nat :: "nat \<Rightarrow> string" where
  "str_nat n = (if n < 10 then [''0123456789'' ! n]
                else str_nat (n div 10) @ [''0123456789'' ! (n mod 10)])"
  by pat_completeness auto
termination
  by (relation "measure id") auto

declare str_nat.simps [simp del]

definition str_int :: "int \<Rightarrow> string" where
  "str_int i = (if i < 0 then CHR ''-'' # str_nat (nat (- i)) else str_nat (nat i))"

fun py_str :: "pyval \<Rightarrow> string" where
  "py_str PNone = ''None''"
| "py_str (PBool b) = (if b then ''True'' else ''False'')"
| "py_str (PInt i) = str_int i"
| "py_str (PIntSub i t) = t"
| "py_str (PStr s) = s"
| "py_str (PStrSub s t) = t"
| "py_str (PObj t) = t"

text \<open>
  \<open>isinstance(value, int)\<close> and \<open>isinstance(value, str)\<close> hold of the instances of
  subclasses too; \<open>bool\<close> is a subclass of \<open>int\<close>.
\<close>

fun isinstance_int :: "pyval \<Rightarrow> bool" where
  "isinstance_int (PInt _) = True"
| "isinstance_int (PBool _) = True"
| "isinstance_int (PIntSub _ _) = True"
| "isinstance_int _ = False"

fun isinstance_str :: "pyval \<Rightarrow> bool" where
  "isinstance_str (PStr _) = True"
| "isinstance_str (PStrSub _ _) = True"
| "isinstance_str _ = False"

text \<open>
  The characters of an instance of \<open>str\<close>, which the methods of \<open>str\<close> (such as
  the \<open>replace\<close> of the escaper) work on. It is asked of instances of \<open>str\<close> only.
\<close>

fun str_chars :: "pyval \<Rightarrow> string" where
  "str_chars (PStr s) = s"
| "str_chars (PStrSub s _) = s"
| "str_chars _ = []"

text \<open>Reading a decimal numeral back, to say what "decimal text form" means.\<close>

definition digit_val :: "char \<Rightarrow> nat" where
  "digit_val c = of_char c - 48"

definition dec_val :: "string \<Rightarrow> nat" where
  "dec_val cs = foldl (\<lambda>a c. 10 * a + digit_val c) 0 cs"

definition dec_int :: "string \<Rightarrow> int" where
  "dec_int cs = (case cs of [] \<Rightarrow> 0
                 | c # ds \<Rightarrow> if c = CHR ''-'' then - int (dec_val ds) else int (dec_val cs))"

definition is_digit :: "char \<Rightarrow> bool" where
  "is_digit c = (c \<in> set ''0123456789'')"

section \<open>The literal dialect\<close>

text \<open>
  \<open>LiteralDialect(paramstyle='pyformat', implicit_returning=True)\<close>. The encoding is
  the one SQLAlchemy's default dialect declares.
\<close>

record dialect =
  paramstyle :: string
  implicit_returning :: bool
  encoding :: string

definition LiteralDialect :: "string \<Rightarrow> bool \<Rightarrow> dialect" where
  "LiteralDialect ps ir = \<lparr>paramstyle = ps, implicit_returning = ir, encoding = ''utf-8''\<rparr>"

definition PG_dialect :: dialect where
  "PG_dialect = LiteralDialect ''pyformat'' True"

text \<open>
  \<open>colspecs\<close> of \<open>LiteralDialect\<close>: the column types whose literal rendering is
  overridden, and the class that renders them.
\<close>

datatype sa_type = SA_String | SA_DateTime | SA_Other string
datatype sa_impl = StringLiteral

fun colspecs :: "sa_type \<Rightarrow> sa_impl option" where
  "colspecs SA_String = Some StringLiteral"
| "colspecs SA_DateTime = Some StringLiteral"
| "colspecs (SA_Other _) = None"

text \<open>
  The base class's literal processor (the escaper) returns \<open>str\<close> or \<open>bytes\<close>;
  \<open>bytes.decode\<close> may raise. Both belong to the libraries and are parameters:
  \<open>super_processor\<close> is \<open>super(StringLiteral, self).literal_processor(dialect)\<close>,
  taken as a function of the characters of the \<open>str\<close> instance it is given, and
  \<open>decode b enc\<close> is \<open>b.decode(enc)\<close>.
\<close>

datatype str_or_bytes = Str string | Bytes "nat list"

definition literal_processor ::
  "(dialect \<Rightarrow> string \<Rightarrow> str_or_bytes) \<Rightarrow> (nat list \<Rightarrow> string \<Rightarrow> exn + string) \<Rightarrow>
   dialect \<Rightarrow> pyval \<Rightarrow> exn + string" where
  "literal_processor super_literal_processor decode dialect =
     (let super_processor = super_literal_processor dialect in
      (\<lambda>value.
         if isinstance_int value then Inr (py_str value)
         else
           let value' = (if \<not> isinstance_str value then PStr (py_str value) else value);
               result = super_processor (str_chars value')
           in (case result of
                 Bytes b \<Rightarrow> decode b (encoding dialect)
               | Str r \<Rightarrow> Inr r)))"

section \<open>The libraries and the trace of calls\<close>

text \<open>
  What SQLAlchemy and asyncpg answer is not decided by this module, so it is a
  parameter: a \<open>backend\<close> gives the outcome of each library call from the calls
  made so far. \<open>Inl e\<close> (or \<open>Some e\<close> for a call that returns nothing) means the
  call raises \<open>e\<close>. Every library call and every logger call is recorded, with its
  outcome, as an \<open>event\<close>; each operation returns the events it adds.
\<close>

datatype level = DEBUG | WARNING

datatype drv_method = M_fetchval | M_fetch | M_fetchrow | M_execute

datatype event =
    Log level string
  | CreateEngine "string option" "exn + engine"
  | CreateAll metadata engine "exn option"
  | DropAll metadata engine "exn option"
  | CreatePool "string option" "exn + pool"
  | Acquire pool "exn + conn"
  | Release pool conn
  | PoolClose pool "exn option"
  | Compile statement bool "exn + string"
  | ConnCall conn drv_method string "pyval list" "pyval option" pyval "exn + pyval"

record backend =
  sa_create_engine :: "event list \<Rightarrow> string option \<Rightarrow> exn + engine"
  sa_create_all :: "event list \<Rightarrow> metadata \<Rightarrow> engine \<Rightarrow> exn option"
  sa_drop_all :: "event list \<Rightarrow> metadata \<Rightarrow> engine \<Rightarrow> exn option"
  sa_compile :: "event list \<Rightarrow> statement \<Rightarrow> dialect \<Rightarrow> bool \<Rightarrow> exn + string"
  pg_create_pool :: "event list \<Rightarrow> string option \<Rightarrow> exn + pool"
  pool_acquire :: "event list \<Rightarrow> pool \<Rightarrow> exn + conn"
  pool_close :: "event list \<Rightarrow> pool \<Rightarrow> exn option"
  conn_call :: "event list \<Rightarrow> conn \<Rightarrow> drv_method \<Rightarrow> string \<Rightarrow> pyval list \<Rightarrow>
                pyval option \<Rightarrow> pyval \<Rightarrow> exn + pyval"

section \<open>The class \<open>PG\<close>\<close>

text \<open>
  The fields \<open>_dsn\<close>, \<open>_metadata\<close>, \<open>_engine\<close> and \<open>_pool\<close>; \<open>None\<close> is Python's
  \<open>None\<close>. A pool object of asyncpg defines neither \<open>__bool__\<close> nor \<open>__len__\<close>, so
  \<open>not self._pool\<close> holds exactly when the field is \<open>None\<close>.
\<close>

record PG =
  f_dsn :: "string option"
  f_metadata :: "metadata option"
  f_engine :: "engine option"
  f_pool :: "pool option"

type_synonym 'a outcome = "(exn + 'a) \<times> PG \<times> event list"

text \<open>The parts of an outcome.\<close>

definition result :: "'a \<times> PG \<times> event list \<Rightarrow> 'a" where
  "result x = fst x"

definition state :: "'a \<times> PG \<times> event list \<Rightarrow> PG" where
  "state x = fst (snd x)"

definition events :: "'a \<times> PG \<times> event list \<Rightarrow> event list" where
  "events x = snd (snd x)"

text \<open>\<open>__init__\<close>\<close>

definition PG_new :: PG where
  "PG_new = \<lparr>f_dsn = None, f_metadata = None, f_engine = None, f_pool = None\<rparr>"

text \<open>
  The exception Python raises for \<open>x.a\<close> when \<open>x\<close>, of type \<open>t\<close>, has no attribute \<open>a\<close>.
  Its message puts \<open>t\<close> and \<open>a\<close> between single quotes (\<open>CHR 0x27\<close>).
\<close>

definition no_attribute :: "string \<Rightarrow> string \<Rightarrow> exn" where
  "no_attribute t a =
     Exn ''AttributeError''
       ([CHR 0x27] @ t @ [CHR 0x27] @ '' object has no attribute '' @ [CHR 0x27] @ a @ [CHR 0x27])"

text \<open>The property \<open>engine\<close>: the engine is created on first access and kept.\<close>

definition engine :: "backend \<Rightarrow> PG \<Rightarrow> event list \<Rightarrow> engine outcome" where
  "engine B s h =
     (case f_engine s of
        None \<Rightarrow>
          (let r = sa_create_engine B h (f_dsn s) in
           case r of
             Inl e \<Rightarrow> (Inl e, s, [CreateEngine (f_dsn s) r])
           | Inr en \<Rightarrow> (Inr en, s\<lparr>f_engine := Some en\<rparr>, [CreateEngine (f_dsn s) r]))
      | Some en \<Rightarrow> (Inr en, s, []))"

text \<open>
  \<open>self._metadata.create_all(self.engine)\<close>: the attribute \<open>create_all\<close> is looked up
  on \<open>self._metadata\<close> before the argument \<open>self.engine\<close> is evaluated.
\<close>

definition create_tables :: "backend \<Rightarrow> PG \<Rightarrow> event list \<Rightarrow> pyval outcome" where
  "create_tables B s h =
     (case f_metadata s of
        None \<Rightarrow> (Inl (no_attribute ''NoneType'' ''create_all''), s, [])
      | Some md \<Rightarrow>
          (case engine B s h of
             (Inl e, s1, ev1) \<Rightarrow> (Inl e, s1, ev1)
           | (Inr en, s1, ev1) \<Rightarrow>
               (let r = sa_create_all B (h @ ev1) md en in
                case r of
                  Some e \<Rightarrow> (Inl e, s1, ev1 @ [CreateAll md en r])
                | None \<Rightarrow> (Inr PNone, s1,
                    ev1 @ [CreateAll md en r, Log DEBUG ''The schema tables created.'']))))"

definition drop_tables :: "backend \<Rightarrow> PG \<Rightarrow> event list \<Rightarrow> pyval outcome" where
  "drop_tables B s h =
     (case f_metadata s of
        None \<Rightarrow> (Inl (no_attribute ''NoneType'' ''drop_all''), s, [])
      | Some md \<Rightarrow>
          (case engine B s h of
             (Inl e, s1, ev1) \<Rightarrow> (Inl e, s1, ev1)
           | (Inr en, s1, ev1) \<Rightarrow>
               (let r = sa_drop_all B (h @ ev1) md en in
                case r of
                  Some e \<Rightarrow> (Inl e, s1, ev1 @ [DropAll md en r])
                | None \<Rightarrow> (Inr PNone, s1,
                    ev1 @ [DropAll md en r, Log DEBUG ''The schema tables dropped.'']))))"

definition init :: "backend \<Rightarrow> PG \<Rightarrow> event list \<Rightarrow> string \<Rightarrow> metadata \<Rightarrow> pyval outcome" where
  "init B s h dsn metadata =
     create_tables B (s\<lparr>f_dsn := Some dsn, f_metadata := Some metadata\<rparr>) h"

text \<open>\<open>_connect\<close>\<close>

definition connect :: "backend \<Rightarrow> PG \<Rightarrow> event list \<Rightarrow> pyval outcome" where
  "connect B s h =
     (let r = pg_create_pool B h (f_dsn s) in
      case r of
        Inl e \<Rightarrow> (Inl e, s, [CreatePool (f_dsn s) r])
      | Inr p \<Rightarrow> (Inr PNone, s\<lparr>f_pool := Some p\<rparr>,
          [CreatePool (f_dsn s) r, Log DEBUG ''PostgreSQL connection pool connected.'']))"

text \<open>
  The context manager \<open>connection\<close>, with the block it guards as \<open>body\<close>: the
  connection is acquired on entry and released when the block is left, also when
  the block raises (\<open>async with self._pool.acquire() as conn: yield conn\<close>).
  Releasing is taken to succeed. This definition, and those of the four query
  operations below, give an operation run from start to end with no other
  coroutine running at its awaits; the awaits themselves, and what may happen
  between them, are the subject of the section on suspension points.
\<close>

definition connection ::
  "backend \<Rightarrow> PG \<Rightarrow> event list \<Rightarrow> (conn \<Rightarrow> event list \<Rightarrow> (exn + pyval) \<times> event list) \<Rightarrow>
   pyval outcome" where
  "connection B s h body =
     (case (if f_pool s = None then connect B s h else (Inr PNone, s, [])) of
        (Inl e, s1, ev1) \<Rightarrow> (Inl e, s1, ev1)
      | (Inr _, s1, ev1) \<Rightarrow>
          (case f_pool s1 of
             None \<Rightarrow> (Inl (no_attribute ''NoneType'' ''acquire''), s1, ev1)
           | Some p \<Rightarrow>
               (let r = pool_acquire B (h @ ev1) p in
                case r of
                  Inl e \<Rightarrow> (Inl e, s1, ev1 @ [Acquire p r])
                | Inr c \<Rightarrow>
                    (case body c (h @ ev1 @ [Acquire p r]) of
                       (res, ev2) \<Rightarrow> (res, s1, ev1 @ [Acquire p r] @ ev2 @ [Release p c])))))"

definition close :: "backend \<Rightarrow> PG \<Rightarrow> event list \<Rightarrow> pyval outcome" where
  "close B s h =
     (case f_pool s of
        None \<Rightarrow> (Inr PNone, s, [Log WARNING ''Connection pool already closed!''])
      | Some p \<Rightarrow>
          (let r = pool_close B h p in
           case r of
             Some e \<Rightarrow> (Inl e, s, [PoolClose p r])
           | None \<Rightarrow> (Inr PNone, s, [PoolClose p r, Log DEBUG ''Connection pool closed...''])))"

text \<open>
  \<open>_literalquery\<close>: an ORM query is replaced by its statement, the statement is
  compiled under the class's dialect, and the text is logged and returned. An
  object without \<open>compile\<close> raises.
\<close>

definition literalquery ::
  "backend \<Rightarrow> event list \<Rightarrow> query \<Rightarrow> bool \<Rightarrow> (exn + string) \<times> event list" where
  "literalquery B h query literal_binds =
     (case (case query of
              QOrmQuery st \<Rightarrow> Inr st
            | QStatement st \<Rightarrow> Inr st
            | QStr _ \<Rightarrow> Inl (no_attribute ''str'' ''compile'')
            | QOther t \<Rightarrow> Inl (no_attribute t ''compile'')) of
        Inl e \<Rightarrow> (Inl e, [])
      | Inr st \<Rightarrow>
          (let r = sa_compile B h st PG_dialect literal_binds in
           case r of
             Inl e \<Rightarrow> (Inl e, [Compile st literal_binds r])
           | Inr literal \<Rightarrow> (Inr literal, [Compile st literal_binds r, Log DEBUG literal])))"

text \<open>
  The first two lines of each query operation:
  \<open>if not isinstance(query, str): query = self._literalquery(query)\<close>.
\<close>

definition as_text :: "backend \<Rightarrow> event list \<Rightarrow> query \<Rightarrow> (exn + string) \<times> event list" where
  "as_text B h query =
     (case query of
        QStr q \<Rightarrow> (Inr q, [])
      | _ \<Rightarrow> literalquery B h query True)"

text \<open>The driver call inside the block: \<open>await conn.m(query, *args, ..., timeout=timeout)\<close>.\<close>

definition on_conn ::
  "backend \<Rightarrow> drv_method \<Rightarrow> string \<Rightarrow> pyval list \<Rightarrow> pyval option \<Rightarrow> pyval \<Rightarrow>
   conn \<Rightarrow> event list \<Rightarrow> (exn + pyval) \<times> event list" where
  "on_conn B m q args column timeout c h =
     (let r = conn_call B h c m q args column timeout in
      (r, [ConnCall c m q args column timeout r]))"

definition fetchval ::
  "backend \<Rightarrow> PG \<Rightarrow> event list \<Rightarrow> query \<Rightarrow> pyval list \<Rightarrow> pyval \<Rightarrow> pyval \<Rightarrow> pyval outcome" where
  "fetchval B s h query args column timeout =
     (case as_text B h query of
        (Inl e, ev0) \<Rightarrow> (Inl e, s, ev0)
      | (Inr q, ev0) \<Rightarrow>
          (case connection B s (h @ ev0) (on_conn B M_fetchval q args (Some column) timeout) of
             (res, s1, ev1) \<Rightarrow> (res, s1, ev0 @ ev1)))"

definition fetch ::
  "backend \<Rightarrow> PG \<Rightarrow> event list \<Rightarrow> query \<Rightarrow> pyval list \<Rightarrow> pyval \<Rightarrow> pyval outcome" where
  "fetch B s h query args timeout =
     (case as_text B h query of
        (Inl e, ev0) \<Rightarrow> (Inl e, s, ev0)
      | (Inr q, ev0) \<Rightarrow>
          (case connection B s (h @ ev0) (on_conn B M_fetch q args None timeout) of
             (res, s1, ev1) \<Rightarrow> (res, s1, ev0 @ ev1)))"

definition fetchrow ::
  "backend \<Rightarrow> PG \<Rightarrow> event list \<Rightarrow> query \<Rightarrow> pyval list \<Rightarrow> pyval \<Rightarrow> pyval outcome" where
  "fetchrow B s h query args timeout =
     (case as_text B h query of
        (Inl e, ev0) \<Rightarrow> (Inl e, s, ev0)
      | (Inr q, ev0) \<Rightarrow>
          (case connection B s (h @ ev0) (on_conn B M_fetchrow q args None timeout) of
             (res, s1, ev1) \<Rightarrow> (res, s1, ev0 @ ev1)))"

definition execute ::
  "backend \<Rightarrow> PG \<Rightarrow> event list \<Rightarrow> query \<Rightarrow> pyval list \<Rightarrow> pyval \<Rightarrow> pyval outcome" where
  "execute B s h query args timeout =
     (case as_text B h query of
        (Inl e, ev0) \<Rightarrow> (Inl e, s, ev0)
      | (Inr q, ev0) \<Rightarrow>
          (case connection B s (h @ ev0) (on_conn B M_execute q args None timeout) of
             (res, s1, ev1) \<Rightarrow> (res, s1, ev0 @ ev1)))"

section \<open>The suspension points of a query operation\<close>

text \<open>
  A query operation is a coroutine: it runs until it awaits a library call and
  goes on when the call has answered; in between, other coroutines of the same
  event loop may run. The awaits are those of the source: \<open>create_pool\<close> in
  \<open>_connect\<close>, the \<open>acquire\<close> on entering and the release on leaving
  \<open>async with self._pool.acquire()\<close>, and the driver call. A value of type
  \<open>coroutine\<close> is a query operation between two awaits: not yet started, or
  suspended in one of the four calls with the answer it will get, or finished.
  A \<open>request\<close> is what the operation still needs of its arguments once the query
  is text.
\<close>

type_synonym request = "drv_method \<times> string \<times> pyval list \<times> pyval option \<times> pyval"

datatype coroutine =
    Ready drv_method query "pyval list" "pyval option" pyval
  | Connecting request "exn + pool"
  | Entering request pool "exn + conn"
  | Calling pool conn "exn + pyval"
  | Leaving "exn + pyval"
  | Done "exn + pyval"

text \<open>
  \<open>self._pool.acquire()\<close>: the field is read and the acquisition awaited.
\<close>

definition enter :: "backend \<Rightarrow> PG \<Rightarrow> event list \<Rightarrow> request \<Rightarrow> coroutine \<times> PG \<times> event list" where
  "enter B s h rq =
     (case f_pool s of
        None \<Rightarrow> (Done (Inl (no_attribute ''NoneType'' ''acquire'')), s, [])
      | Some p \<Rightarrow> (let r = pool_acquire B h p in (Entering rq p r, s, [Acquire p r])))"

text \<open>
  One step runs a coroutine from where it is to its next await. The first step
  renders the query, tests \<open>not self._pool\<close> and either awaits \<open>create_pool\<close> or
  goes on to \<open>acquire\<close>; the assignment to \<open>self._pool\<close> is made by the step after
  \<open>create_pool\<close> has answered.
\<close>

fun step :: "backend \<Rightarrow> PG \<Rightarrow> event list \<Rightarrow> coroutine \<Rightarrow> coroutine \<times> PG \<times> event list" where
  "step B s h (Ready m query args column timeout) =
     (case as_text B h query of
        (Inl e, ev0) \<Rightarrow> (Done (Inl e), s, ev0)
      | (Inr q, ev0) \<Rightarrow>
          (if f_pool s = None
           then (let r = pg_create_pool B (h @ ev0) (f_dsn s) in
                 (Connecting (m, q, args, column, timeout) r, s, ev0 @ [CreatePool (f_dsn s) r]))
           else (case enter B s (h @ ev0) (m, q, args, column, timeout) of
                   (t, s1, ev1) \<Rightarrow> (t, s1, ev0 @ ev1))))"
| "step B s h (Connecting rq r) =
     (case r of
        Inl e \<Rightarrow> (Done (Inl e), s, [])
      | Inr p \<Rightarrow>
          (case enter B (s\<lparr>f_pool := Some p\<rparr>)
                  (h @ [Log DEBUG ''PostgreSQL connection pool connected.'']) rq of
             (t, s1, ev1) \<Rightarrow> (t, s1, Log DEBUG ''PostgreSQL connection pool connected.'' # ev1)))"
| "step B s h (Entering (m, q, args, column, timeout) p r) =
     (case r of
        Inl e \<Rightarrow> (Done (Inl e), s, [])
      | Inr c \<Rightarrow>
          (case on_conn B m q args column timeout c h of
             (r', ev) \<Rightarrow> (Calling p c r', s, ev)))"
| "step B s h (Calling p c r) = (Leaving r, s, [Release p c])"
| "step B s h (Leaving r) = (Done r, s, [])"
| "step B s h (Done r) = (Done r, s, [])"



section \<open>A caller\<close>

text \<open>
  A caller makes the public calls one after another and goes on after an
  exception. \<open>run\<close> gives the outcomes in order, the instance at the end and the
  events added.
\<close>

datatype call =
    Init string metadata
  | Create_tables
  | Drop_tables
  | Close
  | Fetchval query "pyval list" pyval pyval
  | Fetch query "pyval list" pyval
  | Fetchrow query "pyval list" pyval
  | Execute query "pyval list" pyval

fun perform :: "backend \<Rightarrow> PG \<Rightarrow> event list \<Rightarrow> call \<Rightarrow> pyval outcome" where
  "perform B s h (Init dsn md) = init B s h dsn md"
| "perform B s h Create_tables = create_tables B s h"
| "perform B s h Drop_tables = drop_tables B s h"
| "perform B s h Close = close B s h"
| "perform B s h (Fetchval q args column timeout) = fetchval B s h q args column timeout"
| "perform B s h (Fetch q args timeout) = fetch B s h q args timeout"
| "perform B s h (Fetchrow q args timeout) = fetchrow B s h q args timeout"
| "perform B s h (Execute q args timeout) = execute B s h q args timeout"

fun run :: "backend \<Rightarrow> PG \<Rightarrow> event list \<Rightarrow> call list \<Rightarrow> (exn + pyval) list \<times> PG \<times> event list" where
  "run B s h [] = ([], s, [])"
| "run B s h (c # cs) =
     (case perform B s h c of
        (r, s1, ev1) \<Rightarrow>
          (case run B s1 (h @ ev1) cs of
             (rs, s2, ev2) \<Rightarrow> (r # rs, s2, ev1 @ ev2)))"


fun is_query :: "call \<Rightarrow> bool" where
  "is_query (Fetchval _ _ _ _) = True"
| "is_query (Fetch _ _ _) = True"
| "is_query (Fetchrow _ _ _) = True"
| "is_query (Execute _ _ _) = True"
| "is_query _ = False"

section \<open>Reading a trace\<close>

text \<open>The connections handed out by a pool, and those handed back, in order.\<close>

fun acquired :: "event list \<Rightarrow> (pool \<times> conn) list" where
  "acquired [] = []"
| "acquired (Acquire p (Inr c) # es) = (p, c) # acquired es"
| "acquired (_ # es) = acquired es"

fun released :: "event list \<Rightarrow> (pool \<times> conn) list" where
  "released [] = []"
| "released (Release p c # es) = (p, c) # released es"
| "released (_ # es) = released es"

text \<open>The number of connections of pool \<open>p\<close> that are checked out after a trace.\<close>

definition checked_out :: "pool \<Rightarrow> event list \<Rightarrow> int" where
  "checked_out p es =
     int (length (filter (\<lambda>pc. fst pc = p) (acquired es)))
     - int (length (filter (\<lambda>pc. fst pc = p) (released es)))"

text \<open>The pools that were asked for, with the connection string and the outcome.\<close>

fun pools_created :: "event list \<Rightarrow> (string option \<times> (exn + pool)) list" where
  "pools_created [] = []"
| "pools_created (CreatePool d r # es) = (d, r) # pools_created es"
| "pools_created (_ # es) = pools_created es"

text \<open>The pools on which a connection was asked for.\<close>

fun pools_used :: "event list \<Rightarrow> pool list" where
  "pools_used [] = []"
| "pools_used (Acquire p _ # es) = p # pools_used es"
| "pools_used (_ # es) = pools_used es"

text \<open>The engines that were asked for, and the engines DDL was run on.\<close>

fun engines_created :: "event list \<Rightarrow> (string option \<times> (exn + engine)) list" where
  "engines_created [] = []"
| "engines_created (CreateEngine d r # es) = (d, r) # engines_created es"
| "engines_created (_ # es) = engines_created es"

fun ddl_calls :: "event list \<Rightarrow> (bool \<times> metadata \<times> engine) list" where
  "ddl_calls [] = []"
| "ddl_calls (CreateAll md en _ # es) = (True, md, en) # ddl_calls es"
| "ddl_calls (DropAll md en _ # es) = (False, md, en) # ddl_calls es"
| "ddl_calls (_ # es) = ddl_calls es"

text \<open>The statements sent to the driver for execution: which call, text, arguments, column, timeout.\<close>

fun executed :: "event list \<Rightarrow> (drv_method \<times> string \<times> pyval list \<times> pyval option \<times> pyval) list" where
  "executed [] = []"
| "executed (ConnCall c m q args column timeout _ # es) =
     (m, q, args, column, timeout) # executed es"
| "executed (_ # es) = executed es"

text \<open>The texts produced by the literalizer.\<close>

fun literals :: "event list \<Rightarrow> string list" where
  "literals [] = []"
| "literals (Compile st lb (Inr t) # es) = t # literals es"
| "literals (_ # es) = literals es"

fun warnings :: "event list \<Rightarrow> string list" where
  "warnings [] = []"
| "warnings (Log WARNING m # es) = m # warnings es"
| "warnings (_ # es) = warnings es"

text \<open>The connections on which a statement was executed.\<close>

fun executed_on :: "event list \<Rightarrow> conn list" where
  "executed_on [] = []"
| "executed_on (ConnCall c m q args column timeout _ # es) = c # executed_on es"
| "executed_on (_ # es) = executed_on es"

text \<open>The pools that were created, in order.\<close>

fun created_ok :: "event list \<Rightarrow> pool list" where
  "created_ok [] = []"
| "created_ok (CreatePool d (Inr p) # es) = p # created_ok es"
| "created_ok (_ # es) = created_ok es"

text \<open>The exceptions raised by the library calls of a trace.\<close>

fun raised :: "event list \<Rightarrow> exn list" where
  "raised [] = []"
| "raised (CreateEngine _ (Inl e) # es) = e # raised es"
| "raised (CreateAll _ _ (Some e) # es) = e # raised es"
| "raised (DropAll _ _ (Some e) # es) = e # raised es"
| "raised (CreatePool _ (Inl e) # es) = e # raised es"
| "raised (Acquire _ (Inl e) # es) = e # raised es"
| "raised (PoolClose _ (Some e) # es) = e # raised es"
| "raised (Compile _ _ (Inl e) # es) = e # raised es"
| "raised (ConnCall _ _ _ _ _ _ (Inl e) # es) = e # raised es"
| "raised (_ # es) = raised es"

section \<open>Properties of an outcome\<close>

text \<open>
  What it means for the outcome \<open>X\<close> of a query operation to hand \<open>query\<close> to the
  driver call \<open>m\<close>: the text is the query itself or what the literalizer made of
  it; each connection acquired is used for exactly one driver call, the call \<open>m\<close>
  with that text and the caller's \<open>args\<close>, \<open>column\<close> and \<open>timeout\<close>; at most one
  connection is acquired, from the instance's pool; and an operation that
  acquired none has failed.
\<close>

definition delegates ::
  "backend \<Rightarrow> event list \<Rightarrow> drv_method \<Rightarrow> query \<Rightarrow> pyval list \<Rightarrow> pyval option \<Rightarrow> pyval \<Rightarrow>
   pyval outcome \<Rightarrow> bool" where
  "delegates B h m query args column timeout X =
     (executed (events X) =
        concat (map (\<lambda>q. map (\<lambda>_. (m, q, args, column, timeout)) (acquired (events X)))
          (case fst (as_text B h query) of Inr q \<Rightarrow> [q] | Inl _ \<Rightarrow> []))
      \<and> executed_on (events X) = map snd (acquired (events X))
      \<and> map (Some \<circ> fst) (acquired (events X)) = map (\<lambda>_. f_pool (state X)) (acquired (events X))
      \<and> (length (acquired (events X)) = 1 \<or> isl (result X) \<and> acquired (events X) = []))"

text \<open>
  What handing a request to the driver looks like in the trace, with connection
  \<open>c\<close> acquired from pool \<open>p\<close> after the history \<open>h\<close>: the acquisition, the driver
  call of the request on \<open>c\<close> with its text, arguments, column and timeout, and
  the release, in this order; the answer is the driver's.
\<close>

definition scoped_call ::
  "backend \<Rightarrow> event list \<Rightarrow> pool \<Rightarrow> conn \<Rightarrow> request \<Rightarrow> (exn + pyval) \<times> event list" where
  "scoped_call B h p c rq =
     (case rq of (m, q, args, column, timeout) \<Rightarrow>
        (let r = conn_call B (h @ [Acquire p (Inr c)]) c m q args column timeout in
         (r, [Acquire p (Inr c), ConnCall c m q args column timeout r, Release p c])))"

text \<open>
  The exception a query operation raises by itself, whatever the libraries
  answer: the one for a query object that is not a \<open>str\<close> and has no \<open>compile\<close>.
\<close>

fun own_errors :: "query \<Rightarrow> exn list" where
  "own_errors (QOther t) = [no_attribute t ''compile'']"
| "own_errors _ = []"

text \<open>The exception an outcome carries, if any.\<close>

definition failure :: "pyval outcome \<Rightarrow> exn list" where
  "failure X = (case result X of Inl e \<Rightarrow> [e] | Inr _ \<Rightarrow> [])"

text \<open>The operation fails with an exception of class \<open>cls\<close>.\<close>

definition fails_with :: "string \<Rightarrow> pyval outcome \<Rightarrow> bool" where
  "fails_with cls X = (case result X of Inl e \<Rightarrow> exn_class e = cls | Inr _ \<Rightarrow> False)"

section \<open>A sample backend\<close>

text \<open>
  A database that answers every call, used for the closed instances below. An
  engine needs a connection string; a pool is made from any connection string
  (asyncpg falls back on its defaults when there is none); a closed pool refuses
  to hand out connections and may be closed again; every statement compiles to
  the same text and every driver call returns 1.
\<close>

definition pool_is_closed :: "event list \<Rightarrow> pool \<Rightarrow> bool" where
  "pool_is_closed h p = (PoolClose p None \<in> set h)"

definition sample :: backend where
  "sample = \<lparr>
     sa_create_engine = (\<lambda>h d. case d of
         None \<Rightarrow> Inl (Exn ''ArgumentError'' ''Expected string or URL object, got None'')
       | Some _ \<Rightarrow> Inr (Engine (length h))),
     sa_create_all = (\<lambda>h md en. None),
     sa_drop_all = (\<lambda>h md en. None),
     sa_compile = (\<lambda>h st d lb. Inr ''SELECT name FROM t WHERE id = 7''),
     pg_create_pool = (\<lambda>h d. Inr (Pool (length h))),
     pool_acquire = (\<lambda>h p. if pool_is_closed h p
         then Inl (Exn ''InterfaceError'' ''pool is closed'')
         else Inr (Conn (length h))),
     pool_close = (\<lambda>h p. None),
     conn_call = (\<lambda>h c m q args column timeout. Inr (PInt 1))\<rparr>"

text \<open>
  The sample backend with a driver whose every call on a connection times out,
  and the escaper of SQLAlchemy's \<open>String\<close> under \<open>paramstyle='pyformat'\<close>: it
  doubles single quotes, then percent signs, and puts the text between single
  quotes.
\<close>

definition timing_out :: backend where
  "timing_out = sample\<lparr>conn_call :=
     (\<lambda>h c m q args column timeout. Inl (Exn ''TimeoutError'' ''''))\<rparr>"

definition quoting :: "dialect \<Rightarrow> string \<Rightarrow> str_or_bytes" where
  "quoting d t =
     Str (CHR 0x27
          # concat (map (\<lambda>c. if c = CHR 0x27 \<or> c = CHR ''%'' then [c, c] else [c]) t)
          @ [CHR 0x27])"

section \<open>Decimal rendering\<close>

lemma digit_table: "list_all (\<lambda>k. digit_val (''0123456789'' ! k) = k) [0..<10]"
  by code_simp

lemma digit_char_val: "n < 10 \<Longrightarrow> digit_val (''0123456789'' ! n) = n"
proof -
  assume "n < 10"
  then have "n \<in> set [0..<10]" by simp
  with digit_table show ?thesis
    unfolding list_all_iff by blast
qed

lemma digit_char_is_digit: "n < 10 \<Longrightarrow> is_digit (''0123456789'' ! n)"
proof -
  assume "n < 10"
  then have "n < length ''0123456789''" by simp
  then show ?thesis
    unfolding is_digit_def by (rule nth_mem)
qed

lemma dec_val_snoc: "dec_val (cs @ [c]) = 10 * dec_val cs + digit_val c"
  by (simp add: dec_val_def)

lemma dec_val_str_nat: "dec_val (str_nat n) = n"
proof (induction n rule: str_nat.induct)
  case (1 n)
  show ?case
  proof (cases "n < 10")
    case True
    then show ?thesis
      by (subst str_nat.simps) (simp add: dec_val_def digit_char_val)
  next
    case False
    then have "dec_val (str_nat (n div 10)) = n div 10"
      using "1.IH" by simp
    with False show ?thesis
      by (subst str_nat.simps) (simp add: dec_val_snoc digit_char_val)
  qed
qed

lemma str_nat_digits: "list_all is_digit (str_nat n)"
proof (induction n rule: str_nat.induct)
  case (1 n)
  show ?case
  proof (cases "n < 10")
    case True
    then show ?thesis
      by (subst str_nat.simps) (simp add: digit_char_is_digit)
  next
    case False
    then have "list_all is_digit (str_nat (n div 10))"
      using "1.IH" by simp
    with False show ?thesis
      by (subst str_nat.simps) (simp add: digit_char_is_digit)
  qed
qed

lemma str_nat_nonempty: "str_nat n \<noteq> []"
  by (subst str_nat.simps) simp

lemma str_nat_no_minus: "hd (str_nat n) \<noteq> CHR ''-''"
proof -
  have "list_all is_digit (str_nat n)" by (rule str_nat_digits)
  moreover have "str_nat n \<noteq> []" by (rule str_nat_nonempty)
  ultimately have "is_digit (hd (str_nat n))"
    by (cases "str_nat n") simp_all
  then show ?thesis
    by (auto simp: is_digit_def)
qed

lemma dec_int_str_int: "dec_int (str_int i) = i"
proof (cases "i < 0")
  case True
  then show ?thesis
    by (simp add: dec_int_def str_int_def dec_val_str_nat)
next
  case False
  obtain c ds where cd: "str_nat (nat i) = c # ds"
    using str_nat_nonempty [of "nat i"] by (cases "str_nat (nat i)") auto
  have "c \<noteq> CHR ''-''"
    using str_nat_no_minus [of "nat i"] cd by simp
  moreover have "dec_val (c # ds) = nat i"
    using dec_val_str_nat [of "nat i"] cd by simp
  ultimately show ?thesis
    using False cd by (simp add: dec_int_def str_int_def)
qed

section \<open>Rendering a value as a literal\<close>

text \<open>
  C6 as stated fails for the instances of \<open>int\<close> that are not plain integers:
  \<open>isinstance(True, int)\<close> holds, so \<open>True\<close> is returned as \<open>str(True)\<close>, which is
  neither a decimal numeral nor the escaped text; and a member of an \<open>IntEnum\<close>
  whose \<open>str()\<close> is \<open>Color.RED\<close> is returned as that text, unescaped.
\<close>

theorem literal_processor_bool_counterexample:
  "literal_processor quoting (\<lambda>b e. Inr []) PG_dialect (PBool True) = Inr ''True''
   \<and> \<not> list_all is_digit ''True''
   \<and> quoting PG_dialect (py_str (PBool True)) \<noteq> Str ''True''
   \<and> literal_processor quoting (\<lambda>b e. Inr []) PG_dialect (PIntSub 1 ''Color.RED'')
       = Inr ''Color.RED''
   \<and> \<not> list_all is_digit ''Color.RED''
   \<and> quoting PG_dialect (py_str (PIntSub 1 ''Color.RED'')) \<noteq> Str ''Color.RED''"
  by code_simp

text \<open>
  C6, amended: \<open>StringLiteral.literal_processor\<close> renders every value of which
  \<open>isinstance(value, int)\<close> holds as \<open>str(value)\<close>, without escaping it: an integer
  as its decimal text (the text reads back as the integer), a \<open>bool\<close> as \<open>True\<close> or
  \<open>False\<close>, an instance of another subclass of \<open>int\<close> as whatever its \<open>str()\<close>
  gives. Any other value that is not an instance of \<open>str\<close> is first turned into
  its text; the text, or the string itself, goes through the base escaper; an
  escaper result that is a byte sequence is decoded with the dialect's encoding.
  The dialect renders the values of string and of datetime columns this way.
\<close>

theorem literal_processor_rules:
  "literal_processor sp dec d v =
     (if isinstance_int v then Inr (py_str v)
      else case sp d (if isinstance_str v then str_chars v else py_str v) of
             Str r \<Rightarrow> Inr r
           | Bytes bs \<Rightarrow> dec bs (encoding d))
   \<and> literal_processor sp dec d (PInt i) = Inr (str_int i)
   \<and> dec_int (str_int i) = i
   \<and> literal_processor sp dec d (PBool b) = Inr (if b then ''True'' else ''False'')
   \<and> literal_processor sp dec d (PIntSub i t) = Inr t
   \<and> literal_processor sp dec d (PStr t) =
        (case sp d t of Str r \<Rightarrow> Inr r | Bytes bs \<Rightarrow> dec bs (encoding d))
   \<and> literal_processor sp dec d (PStrSub u t) =
        (case sp d u of Str r \<Rightarrow> Inr r | Bytes bs \<Rightarrow> dec bs (encoding d))
   \<and> literal_processor sp dec d (PObj t) =
        (case sp d t of Str r \<Rightarrow> Inr r | Bytes bs \<Rightarrow> dec bs (encoding d))
   \<and> literal_processor sp dec d PNone =
        (case sp d ''None'' of Str r \<Rightarrow> Inr r | Bytes bs \<Rightarrow> dec bs (encoding d))
   \<and> colspecs SA_String = Some StringLiteral
   \<and> colspecs SA_DateTime = Some StringLiteral"
  by (simp add: literal_processor_def dec_int_str_int)

section \<open>Reading the trace of a compound operation\<close>

lemma acquired_append: "acquired (xs @ ys) = acquired xs @ acquired ys"
  by (induction xs rule: acquired.induct) simp_all

lemma released_append: "released (xs @ ys) = released xs @ released ys"
  by (induction xs rule: released.induct) simp_all

lemma executed_append: "executed (xs @ ys) = executed xs @ executed ys"
  by (induction xs rule: executed.induct) simp_all

lemma executed_on_append: "executed_on (xs @ ys) = executed_on xs @ executed_on ys"
  by (induction xs rule: executed_on.induct) simp_all

lemma pools_created_append: "pools_created (xs @ ys) = pools_created xs @ pools_created ys"
  by (induction xs rule: pools_created.induct) simp_all

lemma created_ok_append: "created_ok (xs @ ys) = created_ok xs @ created_ok ys"
  by (induction xs rule: created_ok.induct) simp_all

lemma pools_used_append: "pools_used (xs @ ys) = pools_used xs @ pools_used ys"
  by (induction xs rule: pools_used.induct) simp_all

lemma literals_append: "literals (xs @ ys) = literals xs @ literals ys"
  by (induction xs rule: literals.induct) simp_all

lemma warnings_append: "warnings (xs @ ys) = warnings xs @ warnings ys"
  by (induction xs rule: warnings.induct) simp_all

lemma engines_created_append:
  "engines_created (xs @ ys) = engines_created xs @ engines_created ys"
  by (induction xs rule: engines_created.induct) simp_all

lemma ddl_calls_append: "ddl_calls (xs @ ys) = ddl_calls xs @ ddl_calls ys"
  by (induction xs rule: ddl_calls.induct) simp_all

lemma raised_append: "raised (xs @ ys) = raised xs @ raised ys"
  by (induction xs rule: raised.induct) simp_all

lemmas reader_append = acquired_append released_append executed_append executed_on_append
  pools_created_append created_ok_append pools_used_append literals_append warnings_append
  engines_created_append ddl_calls_append

section \<open>The query operations\<close>

lemma as_text_silent:
  "acquired (snd (as_text B h q)) = []" "released (snd (as_text B h q)) = []"
  "executed (snd (as_text B h q)) = []" "executed_on (snd (as_text B h q)) = []"
  "pools_created (snd (as_text B h q)) = []" "pools_used (snd (as_text B h q)) = []"
  "created_ok (snd (as_text B h q)) = []"
  by (auto simp: as_text_def literalquery_def Let_def split: query.splits sum.splits)

lemma connection_on_conn:
  fixes B s h m q args col t
  defines "x \<equiv> connection B s h (on_conn B m q args col t)"
  shows "released (events x) = acquired (events x)"
    and "executed (events x) = map (\<lambda>_. (m, q, args, col, t)) (acquired (events x))"
    and "executed_on (events x) = map snd (acquired (events x))"
    and "map (Some \<circ> fst) (acquired (events x)) = map (\<lambda>_. f_pool (state x)) (acquired (events x))"
    and "length (acquired (events x)) = 1 \<or> isl (result x) \<and> acquired (events x) = []"
  unfolding x_def
  by (auto simp: connection_def connect_def on_conn_def events_def state_def result_def Let_def
      split: sum.splits option.splits prod.splits)

text \<open>The four query operations have one shape; facts about it are proved once.\<close>

lemma query_shape_delegates:
  assumes "X = (case as_text B h query of
        (Inl e, ev0) \<Rightarrow> (Inl e, s, ev0)
      | (Inr q, ev0) \<Rightarrow>
          (case connection B s (h @ ev0) (on_conn B m q args column timeout) of
             (res, s1, ev1) \<Rightarrow> (res, s1, ev0 @ ev1)))"
  shows "delegates B h m query args column timeout X"
proof (cases "as_text B h query")
  case (Pair r ev0)
  note silent = as_text_silent [of B h query, unfolded Pair, simplified]
  show ?thesis
  proof (cases r)
    case (Inl e)
    with Pair assms silent show ?thesis
      by (simp add: delegates_def events_def result_def state_def)
  next
    case (Inr q)
    obtain res s1 ev1
      where c: "connection B s (h @ ev0) (on_conn B m q args column timeout) = (res, s1, ev1)"
      by (cases "connection B s (h @ ev0) (on_conn B m q args column timeout)") auto
    note facts = connection_on_conn [of B s "h @ ev0" m q args column timeout,
        unfolded c events_def state_def result_def, simplified]
    from Pair Inr assms c have X: "X = (res, s1, ev0 @ ev1)" by simp
    show ?thesis
      unfolding delegates_def X using Pair Inr silent facts
      by (simp add: events_def result_def state_def reader_append)
  qed
qed

lemma query_shape_released:
  assumes "X = (case as_text B h query of
        (Inl e, ev0) \<Rightarrow> (Inl e, s, ev0)
      | (Inr q, ev0) \<Rightarrow>
          (case connection B s (h @ ev0) (on_conn B m q args column timeout) of
             (res, s1, ev1) \<Rightarrow> (res, s1, ev0 @ ev1)))"
  shows "released (events X) = acquired (events X)"
proof (cases "as_text B h query")
  case (Pair r ev0)
  note silent = as_text_silent [of B h query, unfolded Pair, simplified]
  show ?thesis
  proof (cases r)
    case (Inl e)
    with Pair assms silent show ?thesis
      by (simp add: events_def)
  next
    case (Inr q)
    obtain res s1 ev1
      where c: "connection B s (h @ ev0) (on_conn B m q args column timeout) = (res, s1, ev1)"
      by (cases "connection B s (h @ ev0) (on_conn B m q args column timeout)") auto
    note facts = connection_on_conn(1) [of B s "h @ ev0" m q args column timeout,
        unfolded c events_def, simplified]
    from Pair Inr assms c have X: "X = (res, s1, ev0 @ ev1)" by simp
    show ?thesis
      unfolding X using silent facts
      by (simp add: events_def reader_append)
  qed
qed

lemma checked_out_balanced:
  "released evs = acquired evs \<Longrightarrow> checked_out p (h @ evs) = checked_out p h"
  by (simp add: checked_out_def reader_append)

text \<open>
  C7: each of \<open>fetchval\<close>, \<open>fetch\<close>, \<open>fetchrow\<close> and \<open>execute\<close> takes a \<open>str\<close> query as
  it is and sends any other query through \<open>_literalquery\<close>. With the text \<open>q\<close>
  there, the operation does exactly this and nothing else: after what rendering
  logged, and after creating the pool if the instance has none, it acquires a
  connection from the instance's pool, makes the driver call of its own name on
  that connection with \<open>q\<close>, the caller's positional arguments and the caller's
  timeout (and column, for \<open>fetchval\<close>), releases the connection, and returns
  what the driver call returned or raises what it raised. For any query and any
  answers of the libraries, each acquired connection gets exactly one such call.
\<close>

theorem query_ops_delegate:
  assumes "as_text B h query = (Inr q, ev0)"
    and "pool_acquire B (h @ ev0) p = Inr c"
    and "pg_create_pool B (h @ ev0) (f_dsn s) = Inr p'"
    and "pool_acquire B (h @ ev0 @ [CreatePool (f_dsn s) (Inr p'),
          Log DEBUG ''PostgreSQL connection pool connected.'']) p' = Inr c'"
  shows "fetchval B (s\<lparr>f_pool := Some p\<rparr>) h query args column timeout
      = (fst (scoped_call B (h @ ev0) p c (M_fetchval, q, args, Some column, timeout)),
         s\<lparr>f_pool := Some p\<rparr>,
         ev0 @ snd (scoped_call B (h @ ev0) p c (M_fetchval, q, args, Some column, timeout)))
    \<and> fetch B (s\<lparr>f_pool := Some p\<rparr>) h query args timeout
      = (fst (scoped_call B (h @ ev0) p c (M_fetch, q, args, None, timeout)),
         s\<lparr>f_pool := Some p\<rparr>,
         ev0 @ snd (scoped_call B (h @ ev0) p c (M_fetch, q, args, None, timeout)))
    \<and> fetchrow B (s\<lparr>f_pool := Some p\<rparr>) h query args timeout
      = (fst (scoped_call B (h @ ev0) p c (M_fetchrow, q, args, None, timeout)),
         s\<lparr>f_pool := Some p\<rparr>,
         ev0 @ snd (scoped_call B (h @ ev0) p c (M_fetchrow, q, args, None, timeout)))
    \<and> execute B (s\<lparr>f_pool := Some p\<rparr>) h query args timeout
      = (fst (scoped_call B (h @ ev0) p c (M_execute, q, args, None, timeout)),
         s\<lparr>f_pool := Some p\<rparr>,
         ev0 @ snd (scoped_call B (h @ ev0) p c (M_execute, q, args, None, timeout)))
    \<and> fetchval B (s\<lparr>f_pool := None\<rparr>) h query args column timeout
      = (fst (scoped_call B (h @ ev0 @ [CreatePool (f_dsn s) (Inr p'),
                Log DEBUG ''PostgreSQL connection pool connected.''])
              p' c' (M_fetchval, q, args, Some column, timeout)),
         s\<lparr>f_pool := Some p'\<rparr>,
         ev0 @ [CreatePool (f_dsn s) (Inr p'),
                Log DEBUG ''PostgreSQL connection pool connected.'']
         @ snd (scoped_call B (h @ ev0 @ [CreatePool (f_dsn s) (Inr p'),
                Log DEBUG ''PostgreSQL connection pool connected.''])
              p' c' (M_fetchval, q, args, Some column, timeout)))
    \<and> fetch B (s\<lparr>f_pool := None\<rparr>) h query args timeout
      = (fst (scoped_call B (h @ ev0 @ [CreatePool (f_dsn s) (Inr p'),
                Log DEBUG ''PostgreSQL connection pool connected.''])
              p' c' (M_fetch, q, args, None, timeout)),
         s\<lparr>f_pool := Some p'\<rparr>,
         ev0 @ [CreatePool (f_dsn s) (Inr p'),
                Log DEBUG ''PostgreSQL connection pool connected.'']
         @ snd (scoped_call B (h @ ev0 @ [CreatePool (f_dsn s) (Inr p'),
                Log DEBUG ''PostgreSQL connection pool connected.''])
              p' c' (M_fetch, q, args, None, timeout)))
    \<and> fetchrow B (s\<lparr>f_pool := None\<rparr>) h query args timeout
      = (fst (scoped_call B (h @ ev0 @ [CreatePool (f_dsn s) (Inr p'),
                Log DEBUG ''PostgreSQL connection pool connected.''])
              p' c' (M_fetchrow, q, args, None, timeout)),
         s\<lparr>f_pool := Some p'\<rparr>,
         ev0 @ [CreatePool (f_dsn s) (Inr p'),
                Log DEBUG ''PostgreSQL connection pool connected.'']
         @ snd (scoped_call B (h @ ev0 @ [CreatePool (f_dsn s) (Inr p'),
                Log DEBUG ''PostgreSQL connection pool connected.''])
              p' c' (M_fetchrow, q, args, None, timeout)))
    \<and> execute B (s\<lparr>f_pool := None\<rparr>) h query args timeout
      = (fst (scoped_call B (h @ ev0 @ [CreatePool (f_dsn s) (Inr p'),
                Log DEBUG ''PostgreSQL connection pool connected.''])
              p' c' (M_execute, q, args, None, timeout)),
         s\<lparr>f_pool := Some p'\<rparr>,
         ev0 @ [CreatePool (f_dsn s) (Inr p'),
                Log DEBUG ''PostgreSQL connection pool connected.'']
         @ snd (scoped_call B (h @ ev0 @ [CreatePool (f_dsn s) (Inr p'),
                Log DEBUG ''PostgreSQL connection pool connected.''])
              p' c' (M_execute, q, args, None, timeout)))
    \<and> delegates B h M_fetchval query' args (Some column) timeout
         (fetchval B s h query' args column timeout)
    \<and> delegates B h M_fetch query' args None timeout (fetch B s h query' args timeout)
    \<and> delegates B h M_fetchrow query' args None timeout (fetchrow B s h query' args timeout)
    \<and> delegates B h M_execute query' args None timeout (execute B s h query' args timeout)
    \<and> as_text B h (QStr t) = (Inr t, [])
    \<and> as_text B h (QStatement st) = literalquery B h (QStatement st) True
    \<and> as_text B h (QOrmQuery st) = literalquery B h (QOrmQuery st) True
    \<and> as_text B h (QOther n) = literalquery B h (QOther n) True"
proof -
  have present:
    "fetchval B (s\<lparr>f_pool := Some p\<rparr>) h query args column timeout
      = (fst (scoped_call B (h @ ev0) p c (M_fetchval, q, args, Some column, timeout)),
         s\<lparr>f_pool := Some p\<rparr>,
         ev0 @ snd (scoped_call B (h @ ev0) p c (M_fetchval, q, args, Some column, timeout)))"
    "fetch B (s\<lparr>f_pool := Some p\<rparr>) h query args timeout
      = (fst (scoped_call B (h @ ev0) p c (M_fetch, q, args, None, timeout)),
         s\<lparr>f_pool := Some p\<rparr>,
         ev0 @ snd (scoped_call B (h @ ev0) p c (M_fetch, q, args, None, timeout)))"
    "fetchrow B (s\<lparr>f_pool := Some p\<rparr>) h query args timeout
      = (fst (scoped_call B (h @ ev0) p c (M_fetchrow, q, args, None, timeout)),
         s\<lparr>f_pool := Some p\<rparr>,
         ev0 @ snd (scoped_call B (h @ ev0) p c (M_fetchrow, q, args, None, timeout)))"
    "execute B (s\<lparr>f_pool := Some p\<rparr>) h query args timeout
      = (fst (scoped_call B (h @ ev0) p c (M_execute, q, args, None, timeout)),
         s\<lparr>f_pool := Some p\<rparr>,
         ev0 @ snd (scoped_call B (h @ ev0) p c (M_execute, q, args, None, timeout)))"
    using assms(1,2)
    by (simp_all add: fetchval_def fetch_def fetchrow_def execute_def connection_def
        on_conn_def scoped_call_def Let_def)
  have absent:
    "fetchval B (s\<lparr>f_pool := None\<rparr>) h query args column timeout
      = (fst (scoped_call B (h @ ev0 @ [CreatePool (f_dsn s) (Inr p'),
                Log DEBUG ''PostgreSQL connection pool connected.''])
              p' c' (M_fetchval, q, args, Some column, timeout)),
         s\<lparr>f_pool := Some p'\<rparr>,
         ev0 @ [CreatePool (f_dsn s) (Inr p'),
                Log DEBUG ''PostgreSQL connection pool connected.'']
         @ snd (scoped_call B (h @ ev0 @ [CreatePool (f_dsn s) (Inr p'),
                Log DEBUG ''PostgreSQL connection pool connected.''])
              p' c' (M_fetchval, q, args, Some column, timeout)))"
    "fetch B (s\<lparr>f_pool := None\<rparr>) h query args timeout
      = (fst (scoped_call B (h @ ev0 @ [CreatePool (f_dsn s) (Inr p'),
                Log DEBUG ''PostgreSQL connection pool connected.''])
              p' c' (M_fetch, q, args, None, timeout)),
         s\<lparr>f_pool := Some p'\<rparr>,
         ev0 @ [CreatePool (f_dsn s) (Inr p'),
                Log DEBUG ''PostgreSQL connection pool connected.'']
         @ snd (scoped_call B (h @ ev0 @ [CreatePool (f_dsn s) (Inr p'),
                Log DEBUG ''PostgreSQL connection pool connected.''])
              p' c' (M_fetch, q, args, None, timeout)))"
    "fetchrow B (s\<lparr>f_pool := None\<rparr>) h query args timeout
      = (fst (scoped_call B (h @ ev0 @ [CreatePool (f_dsn s) (Inr p'),
                Log DEBUG ''PostgreSQL connection pool connected.''])
              p' c' (M_fetchrow, q, args, None, timeout)),
         s\<lparr>f_pool := Some p'\<rparr>,
         ev0 @ [CreatePool (f_dsn s) (Inr p'),
                Log DEBUG ''PostgreSQL connection pool connected.'']
         @ snd (scoped_call B (h @ ev0 @ [CreatePool (f_dsn s) (Inr p'),
                Log DEBUG ''PostgreSQL connection pool connected.''])
              p' c' (M_fetchrow, q, args, None, timeout)))"
    "execute B (s\<lparr>f_pool := None\<rparr>) h query args timeout
      = (fst (scoped_call B (h @ ev0 @ [CreatePool (f_dsn s) (Inr p'),
                Log DEBUG ''PostgreSQL connection pool connected.''])
              p' c' (M_execute, q, args, None, timeout)),
         s\<lparr>f_pool := Some p'\<rparr>,
         ev0 @ [CreatePool (f_dsn s) (Inr p'),
                Log DEBUG ''PostgreSQL connection pool connected.'']
         @ snd (scoped_call B (h @ ev0 @ [CreatePool (f_dsn s) (Inr p'),
                Log DEBUG ''PostgreSQL connection pool connected.''])
              p' c' (M_execute, q, args, None, timeout)))"
    using assms(1,3,4)
    by (simp_all add: fetchval_def fetch_def fetchrow_def execute_def connection_def
        connect_def on_conn_def scoped_call_def Let_def)
  have general:
    "delegates B h M_fetchval query' args (Some column) timeout
         (fetchval B s h query' args column timeout)"
    "delegates B h M_fetch query' args None timeout (fetch B s h query' args timeout)"
    "delegates B h M_fetchrow query' args None timeout (fetchrow B s h query' args timeout)"
    "delegates B h M_execute query' args None timeout (execute B s h query' args timeout)"
    by (rule query_shape_delegates; simp add: fetchval_def fetch_def fetchrow_def execute_def)+
  have render:
    "as_text B h (QStr t) = (Inr t, [])"
    "as_text B h (QStatement st) = literalquery B h (QStatement st) True"
    "as_text B h (QOrmQuery st) = literalquery B h (QOrmQuery st) True"
    "as_text B h (QOther n) = literalquery B h (QOther n) True"
    by (simp_all add: as_text_def)
  from present absent general render show ?thesis
    by (intro conjI)
qed


theorem query_ops_delegate_witness:
  "as_text sample 
       [CreateEngine (Some ''pg://a'') (Inr (Engine 0)), CreateAll (MetaData 0) (Engine 0) None,
        Log DEBUG ''The schema tables created.''] (QStatement (Statement 0)) = (Inr ''SELECT name FROM t WHERE id = 7'', [Compile (Statement 0) True (Inr ''SELECT name FROM t WHERE id = 7''), Log DEBUG ''SELECT name FROM t WHERE id = 7''])
   \<and> pool_acquire sample (
       [CreateEngine (Some ''pg://a'') (Inr (Engine 0)), CreateAll (MetaData 0) (Engine 0) None,
        Log DEBUG ''The schema tables created.''] @ [Compile (Statement 0) True (Inr ''SELECT name FROM t WHERE id = 7''), Log DEBUG ''SELECT name FROM t WHERE id = 7'']) (Pool 9) = Inr (Conn 5)
   \<and> pg_create_pool sample (
       [CreateEngine (Some ''pg://a'') (Inr (Engine 0)), CreateAll (MetaData 0) (Engine 0) None,
        Log DEBUG ''The schema tables created.''] @ [Compile (Statement 0) True (Inr ''SELECT name FROM t WHERE id = 7''), Log DEBUG ''SELECT name FROM t WHERE id = 7'']) (f_dsn 
       \<lparr>f_dsn = Some ''pg://a'', f_metadata = Some (MetaData 0),
        f_engine = Some (Engine 0), f_pool = None\<rparr>) = Inr (Pool 5)
   \<and> pool_acquire sample (
       [CreateEngine (Some ''pg://a'') (Inr (Engine 0)), CreateAll (MetaData 0) (Engine 0) None,
        Log DEBUG ''The schema tables created.''] @ [Compile (Statement 0) True (Inr ''SELECT name FROM t WHERE id = 7''), Log DEBUG ''SELECT name FROM t WHERE id = 7''] @ [CreatePool (f_dsn 
       \<lparr>f_dsn = Some ''pg://a'', f_metadata = Some (MetaData 0),
        f_engine = Some (Engine 0), f_pool = None\<rparr>) (Inr (Pool 5)),
          Log DEBUG ''PostgreSQL connection pool connected.'']) (Pool 5) = Inr (Conn 7)
   \<and> fetchval sample 
       \<lparr>f_dsn = Some ''pg://a'', f_metadata = Some (MetaData 0),
        f_engine = Some (Engine 0), f_pool = None\<rparr> 
       [CreateEngine (Some ''pg://a'') (Inr (Engine 0)), CreateAll (MetaData 0) (Engine 0) None,
        Log DEBUG ''The schema tables created.''] (QStatement (Statement 0)) [PInt 7] (PInt 0) (PInt 5)
      = (Inr (PInt 1), 
       \<lparr>f_dsn = Some ''pg://a'', f_metadata = Some (MetaData 0),
        f_engine = Some (Engine 0), f_pool = None\<rparr>\<lparr>f_pool := Some (Pool 5)\<rparr>,
        [Compile (Statement 0) True (Inr ''SELECT name FROM t WHERE id = 7''), Log DEBUG ''SELECT name FROM t WHERE id = 7''] @ [CreatePool (Some ''pg://a'') (Inr (Pool 5)),
         Log DEBUG ''PostgreSQL connection pool connected.'']
        @ [Acquire (Pool 5) (Inr (Conn 7)),
           ConnCall (Conn 7) M_fetchval ''SELECT name FROM t WHERE id = 7'' [PInt 7] (Some (PInt 0)) (PInt 5) (Inr (PInt 1)),
           Release (Pool 5) (Conn 7)])
   \<and> fetch sample 
       \<lparr>f_dsn = Some ''pg://a'', f_metadata = Some (MetaData 0),
        f_engine = Some (Engine 0), f_pool = None\<rparr> 
       [CreateEngine (Some ''pg://a'') (Inr (Engine 0)), CreateAll (MetaData 0) (Engine 0) None,
        Log DEBUG ''The schema tables created.''] (QStatement (Statement 0)) [PInt 7] (PInt 5)
      = (Inr (PInt 1), 
       \<lparr>f_dsn = Some ''pg://a'', f_metadata = Some (MetaData 0),
        f_engine = Some (Engine 0), f_pool = None\<rparr>\<lparr>f_pool := Some (Pool 5)\<rparr>,
        [Compile (Statement 0) True (Inr ''SELECT name FROM t WHERE id = 7''), Log DEBUG ''SELECT name FROM t WHERE id = 7''] @ [CreatePool (Some ''pg://a'') (Inr (Pool 5)),
         Log DEBUG ''PostgreSQL connection pool connected.'']
        @ [Acquire (Pool 5) (Inr (Conn 7)),
           ConnCall (Conn 7) M_fetch ''SELECT name FROM t WHERE id = 7'' [PInt 7] None (PInt 5) (Inr (PInt 1)),
           Release (Pool 5) (Conn 7)])
   \<and> fetchrow sample 
       \<lparr>f_dsn = Some ''pg://a'', f_metadata = Some (MetaData 0),
        f_engine = Some (Engine 0), f_pool = None\<rparr> 
       [CreateEngine (Some ''pg://a'') (Inr (Engine 0)), CreateAll (MetaData 0) (Engine 0) None,
        Log DEBUG ''The schema tables created.''] (QStatement (Statement 0)) [PInt 7] (PInt 5)
      = (Inr (PInt 1), 
       \<lparr>f_dsn = Some ''pg://a'', f_metadata = Some (MetaData 0),
        f_engine = Some (Engine 0), f_pool = None\<rparr>\<lparr>f_pool := Some (Pool 5)\<rparr>,
        [Compile (Statement 0) True (Inr ''SELECT name FROM t WHERE id = 7''), Log DEBUG ''SELECT name FROM t WHERE id = 7''] @ [CreatePool (Some ''pg://a'') (Inr (Pool 5)),
         Log DEBUG ''PostgreSQL connection pool connected.'']
        @ [Acquire (Pool 5) (Inr (Conn 7)),
           ConnCall (Conn 7) M_fetchrow ''SELECT name FROM t WHERE id = 7'' [PInt 7] None (PInt 5) (Inr (PInt 1)),
           Release (Pool 5) (Conn 7)])
   \<and> execute sample 
       \<lparr>f_dsn = Some ''pg://a'', f_metadata = Some (MetaData 0),
        f_engine = Some (Engine 0), f_pool = None\<rparr> 
       [CreateEngine (Some ''pg://a'') (Inr (Engine 0)), CreateAll (MetaData 0) (Engine 0) None,
        Log DEBUG ''The schema tables created.''] (QStatement (Statement 0)) [PInt 7] (PInt 5)
      = (Inr (PInt 1), 
       \<lparr>f_dsn = Some ''pg://a'', f_metadata = Some (MetaData 0),
        f_engine = Some (Engine 0), f_pool = None\<rparr>\<lparr>f_pool := Some (Pool 5)\<rparr>,
        [Compile (Statement 0) True (Inr ''SELECT name FROM t WHERE id = 7''), Log DEBUG ''SELECT name FROM t WHERE id = 7''] @ [CreatePool (Some ''pg://a'') (Inr (Pool 5)),
         Log DEBUG ''PostgreSQL connection pool connected.'']
        @ [Acquire (Pool 5) (Inr (Conn 7)),
           ConnCall (Conn 7) M_execute ''SELECT name FROM t WHERE id = 7'' [PInt 7] None (PInt 5) (Inr (PInt 1)),
           Release (Pool 5) (Conn 7)])"
proof -
  define s0 where "s0 = \<lparr>f_dsn = Some ''pg://a'', f_metadata = Some (MetaData 0),
        f_engine = Some (Engine 0), f_pool = None\<rparr>"
  define h0 where "h0 = [CreateEngine (Some ''pg://a'') (Inr (Engine 0)), CreateAll (MetaData 0) (Engine 0) None,
        Log DEBUG ''The schema tables created.'']"
  have T: "as_text sample h0 (QStatement (Statement 0)) = (Inr ''SELECT name FROM t WHERE id = 7'', [Compile (Statement 0) True (Inr ''SELECT name FROM t WHERE id = 7''), Log DEBUG ''SELECT name FROM t WHERE id = 7''])"
    unfolding h0_def by code_simp
  have A: "pool_acquire sample (h0 @ [Compile (Statement 0) True (Inr ''SELECT name FROM t WHERE id = 7''), Log DEBUG ''SELECT name FROM t WHERE id = 7'']) (Pool 9) = Inr (Conn 5)"
    unfolding h0_def by code_simp
  have C: "pg_create_pool sample (h0 @ [Compile (Statement 0) True (Inr ''SELECT name FROM t WHERE id = 7''), Log DEBUG ''SELECT name FROM t WHERE id = 7'']) (f_dsn s0) = Inr (Pool 5)"
    unfolding h0_def s0_def by code_simp
  have A': "pool_acquire sample (h0 @ [Compile (Statement 0) True (Inr ''SELECT name FROM t WHERE id = 7''), Log DEBUG ''SELECT name FROM t WHERE id = 7''] @ [CreatePool (f_dsn s0) (Inr (Pool 5)),
          Log DEBUG ''PostgreSQL connection pool connected.'']) (Pool 5) = Inr (Conn 7)"
    unfolding h0_def s0_def by code_simp
  have n: "s0\<lparr>f_pool := None\<rparr> = s0" and d: "f_dsn s0 = Some ''pg://a''"
    by (simp_all add: s0_def)
  have r: "conn_call sample hh cc mm qq aa col tt = Inr (PInt 1)" for hh cc mm qq aa col tt
    by (simp add: sample_def)
  from query_ops_delegate [OF T A C A', of "[PInt 7]" "PInt 0" "PInt 5"]
  have "fetchval sample s0 h0 (QStatement (Statement 0)) [PInt 7] (PInt 0) (PInt 5)
      = (Inr (PInt 1), s0\<lparr>f_pool := Some (Pool 5)\<rparr>,
        [Compile (Statement 0) True (Inr ''SELECT name FROM t WHERE id = 7''), Log DEBUG ''SELECT name FROM t WHERE id = 7''] @ [CreatePool (Some ''pg://a'') (Inr (Pool 5)),
         Log DEBUG ''PostgreSQL connection pool connected.'']
        @ [Acquire (Pool 5) (Inr (Conn 7)),
           ConnCall (Conn 7) M_fetchval ''SELECT name FROM t WHERE id = 7'' [PInt 7] (Some (PInt 0)) (PInt 5) (Inr (PInt 1)),
           Release (Pool 5) (Conn 7)])
   \<and> fetch sample s0 h0 (QStatement (Statement 0)) [PInt 7] (PInt 5)
      = (Inr (PInt 1), s0\<lparr>f_pool := Some (Pool 5)\<rparr>,
        [Compile (Statement 0) True (Inr ''SELECT name FROM t WHERE id = 7''), Log DEBUG ''SELECT name FROM t WHERE id = 7''] @ [CreatePool (Some ''pg://a'') (Inr (Pool 5)),
         Log DEBUG ''PostgreSQL connection pool connected.'']
        @ [Acquire (Pool 5) (Inr (Conn 7)),
           ConnCall (Conn 7) M_fetch ''SELECT name FROM t WHERE id = 7'' [PInt 7] None (PInt 5) (Inr (PInt 1)),
           Release (Pool 5) (Conn 7)])
   \<and> fetchrow sample s0 h0 (QStatement (Statement 0)) [PInt 7] (PInt 5)
      = (Inr (PInt 1), s0\<lparr>f_pool := Some (Pool 5)\<rparr>,
        [Compile (Statement 0) True (Inr ''SELECT name FROM t WHERE id = 7''), Log DEBUG ''SELECT name FROM t WHERE id = 7''] @ [CreatePool (Some ''pg://a'') (Inr (Pool 5)),
         Log DEBUG ''PostgreSQL connection pool connected.'']
        @ [Acquire (Pool 5) (Inr (Conn 7)),
           ConnCall (Conn 7) M_fetchrow ''SELECT name FROM t WHERE id = 7'' [PInt 7] None (PInt 5) (Inr (PInt 1)),
           Release (Pool 5) (Conn 7)])
   \<and> execute sample s0 h0 (QStatement (Statement 0)) [PInt 7] (PInt 5)
      = (Inr (PInt 1), s0\<lparr>f_pool := Some (Pool 5)\<rparr>,
        [Compile (Statement 0) True (Inr ''SELECT name FROM t WHERE id = 7''), Log DEBUG ''SELECT name FROM t WHERE id = 7''] @ [CreatePool (Some ''pg://a'') (Inr (Pool 5)),
         Log DEBUG ''PostgreSQL connection pool connected.'']
        @ [Acquire (Pool 5) (Inr (Conn 7)),
           ConnCall (Conn 7) M_execute ''SELECT name FROM t WHERE id = 7'' [PInt 7] None (PInt 5) (Inr (PInt 1)),
           Release (Pool 5) (Conn 7)])"
    by (simp add: scoped_call_def r n d Let_def)
  with T A C A' have "as_text sample h0 (QStatement (Statement 0)) = (Inr ''SELECT name FROM t WHERE id = 7'', [Compile (Statement 0) True (Inr ''SELECT name FROM t WHERE id = 7''), Log DEBUG ''SELECT name FROM t WHERE id = 7''])
   \<and> pool_acquire sample (h0 @ [Compile (Statement 0) True (Inr ''SELECT name FROM t WHERE id = 7''), Log DEBUG ''SELECT name FROM t WHERE id = 7'']) (Pool 9) = Inr (Conn 5)
   \<and> pg_create_pool sample (h0 @ [Compile (Statement 0) True (Inr ''SELECT name FROM t WHERE id = 7''), Log DEBUG ''SELECT name FROM t WHERE id = 7'']) (f_dsn s0) = Inr (Pool 5)
   \<and> pool_acquire sample (h0 @ [Compile (Statement 0) True (Inr ''SELECT name FROM t WHERE id = 7''), Log DEBUG ''SELECT name FROM t WHERE id = 7''] @ [CreatePool (f_dsn s0) (Inr (Pool 5)),
          Log DEBUG ''PostgreSQL connection pool connected.'']) (Pool 5) = Inr (Conn 7)
   \<and> fetchval sample s0 h0 (QStatement (Statement 0)) [PInt 7] (PInt 0) (PInt 5)
      = (Inr (PInt 1), s0\<lparr>f_pool := Some (Pool 5)\<rparr>,
        [Compile (Statement 0) True (Inr ''SELECT name FROM t WHERE id = 7''), Log DEBUG ''SELECT name FROM t WHERE id = 7''] @ [CreatePool (Some ''pg://a'') (Inr (Pool 5)),
         Log DEBUG ''PostgreSQL connection pool connected.'']
        @ [Acquire (Pool 5) (Inr (Conn 7)),
           ConnCall (Conn 7) M_fetchval ''SELECT name FROM t WHERE id = 7'' [PInt 7] (Some (PInt 0)) (PInt 5) (Inr (PInt 1)),
           Release (Pool 5) (Conn 7)])
   \<and> fetch sample s0 h0 (QStatement (Statement 0)) [PInt 7] (PInt 5)
      = (Inr (PInt 1), s0\<lparr>f_pool := Some (Pool 5)\<rparr>,
        [Compile (Statement 0) True (Inr ''SELECT name FROM t WHERE id = 7''), Log DEBUG ''SELECT name FROM t WHERE id = 7''] @ [CreatePool (Some ''pg://a'') (Inr (Pool 5)),
         Log DEBUG ''PostgreSQL connection pool connected.'']
        @ [Acquire (Pool 5) (Inr (Conn 7)),
           ConnCall (Conn 7) M_fetch ''SELECT name FROM t WHERE id = 7'' [PInt 7] None (PInt 5) (Inr (PInt 1)),
           Release (Pool 5) (Conn 7)])
   \<and> fetchrow sample s0 h0 (QStatement (Statement 0)) [PInt 7] (PInt 5)
      = (Inr (PInt 1), s0\<lparr>f_pool := Some (Pool 5)\<rparr>,
        [Compile (Statement 0) True (Inr ''SELECT name FROM t WHERE id = 7''), Log DEBUG ''SELECT name FROM t WHERE id = 7''] @ [CreatePool (Some ''pg://a'') (Inr (Pool 5)),
         Log DEBUG ''PostgreSQL connection pool connected.'']
        @ [Acquire (Pool 5) (Inr (Conn 7)),
           ConnCall (Conn 7) M_fetchrow ''SELECT name FROM t WHERE id = 7'' [PInt 7] None (PInt 5) (Inr (PInt 1)),
           Release (Pool 5) (Conn 7)])
   \<and> execute sample s0 h0 (QStatement (Statement 0)) [PInt 7] (PInt 5)
      = (Inr (PInt 1), s0\<lparr>f_pool := Some (Pool 5)\<rparr>,
        [Compile (Statement 0) True (Inr ''SELECT name FROM t WHERE id = 7''), Log DEBUG ''SELECT name FROM t WHERE id = 7''] @ [CreatePool (Some ''pg://a'') (Inr (Pool 5)),
         Log DEBUG ''PostgreSQL connection pool connected.'']
        @ [Acquire (Pool 5) (Inr (Conn 7)),
           ConnCall (Conn 7) M_execute ''SELECT name FROM t WHERE id = 7'' [PInt 7] None (PInt 5) (Inr (PInt 1)),
           Release (Pool 5) (Conn 7)])"
    by (simp add: d)
  then show ?thesis
    unfolding s0_def h0_def .
qed

text \<open>
  C9: whatever a query operation returns or raises, every connection it acquired
  from the pool has been released when it ends, so the number of connections
  checked out of any pool is the same after the operation as before it.
\<close>

theorem connection_always_released:
  "released (events (fetchval B s h query args column timeout))
     = acquired (events (fetchval B s h query args column timeout))
   \<and> released (events (fetch B s h query args timeout))
     = acquired (events (fetch B s h query args timeout))
   \<and> released (events (fetchrow B s h query args timeout))
     = acquired (events (fetchrow B s h query args timeout))
   \<and> released (events (execute B s h query args timeout))
     = acquired (events (execute B s h query args timeout))
   \<and> checked_out p (h @ events (fetchval B s h query args column timeout)) = checked_out p h
   \<and> checked_out p (h @ events (fetch B s h query args timeout)) = checked_out p h
   \<and> checked_out p (h @ events (fetchrow B s h query args timeout)) = checked_out p h
   \<and> checked_out p (h @ events (execute B s h query args timeout)) = checked_out p h"
proof -
  have 1: "released (events (fetchval B s h query args column timeout))
     = acquired (events (fetchval B s h query args column timeout))"
    by (rule query_shape_released) (simp add: fetchval_def)
  have 2: "released (events (fetch B s h query args timeout))
     = acquired (events (fetch B s h query args timeout))"
    by (rule query_shape_released) (simp add: fetch_def)
  have 3: "released (events (fetchrow B s h query args timeout))
     = acquired (events (fetchrow B s h query args timeout))"
    by (rule query_shape_released) (simp add: fetchrow_def)
  have 4: "released (events (execute B s h query args timeout))
     = acquired (events (execute B s h query args timeout))"
    by (rule query_shape_released) (simp add: execute_def)
  show ?thesis
    using 1 2 3 4 by (simp add: checked_out_balanced)
qed

theorem connection_always_released_witness:
  "result (fetch timing_out (state (init timing_out PG_new [] ''pg://a'' (MetaData 0)))
          (events (init timing_out PG_new [] ''pg://a'' (MetaData 0)))
          (QStr ''SELECT pg_sleep(10)'') [] (PInt 1))
     = Inl (Exn ''TimeoutError'' '''')
   \<and> acquired (events (fetch timing_out (state (init timing_out PG_new [] ''pg://a'' (MetaData 0)))
          (events (init timing_out PG_new [] ''pg://a'' (MetaData 0)))
          (QStr ''SELECT pg_sleep(10)'') [] (PInt 1)))
     = [(Pool 3, Conn 5)]
   \<and> released (events (fetch timing_out (state (init timing_out PG_new [] ''pg://a'' (MetaData 0)))
          (events (init timing_out PG_new [] ''pg://a'' (MetaData 0)))
          (QStr ''SELECT pg_sleep(10)'') [] (PInt 1)))
     = [(Pool 3, Conn 5)]
   \<and> checked_out (Pool 3)
        (events (init timing_out PG_new [] ''pg://a'' (MetaData 0))
         @ events (fetch timing_out (state (init timing_out PG_new [] ''pg://a'' (MetaData 0)))
          (events (init timing_out PG_new [] ''pg://a'' (MetaData 0)))
          (QStr ''SELECT pg_sleep(10)'') [] (PInt 1)))
     = 0"
proof -
  define s where "s = state (init timing_out PG_new [] ''pg://a'' (MetaData 0))"
  define h where "h = events (init timing_out PG_new [] ''pg://a'' (MetaData 0))"
  have r: "result (fetch timing_out s h (QStr ''SELECT pg_sleep(10)'') [] (PInt 1))
     = Inl (Exn ''TimeoutError'' '''')"
    unfolding s_def h_def by code_simp
  have a: "acquired (events (fetch timing_out s h (QStr ''SELECT pg_sleep(10)'') [] (PInt 1)))
     = [(Pool 3, Conn 5)]"
    unfolding s_def h_def by code_simp
  have c: "checked_out (Pool 3) h = 0"
    unfolding h_def by code_simp
  from connection_always_released [of timing_out s h "QStr ''SELECT pg_sleep(10)''"
      "[]" PNone "PInt 1" "Pool 3"]
  have "result (fetch timing_out s h (QStr ''SELECT pg_sleep(10)'') [] (PInt 1))
     = Inl (Exn ''TimeoutError'' '''')
   \<and> acquired (events (fetch timing_out s h (QStr ''SELECT pg_sleep(10)'') [] (PInt 1)))
     = [(Pool 3, Conn 5)]
   \<and> released (events (fetch timing_out s h (QStr ''SELECT pg_sleep(10)'') [] (PInt 1)))
     = [(Pool 3, Conn 5)]
   \<and> checked_out (Pool 3)
        (h @ events (fetch timing_out s h (QStr ''SELECT pg_sleep(10)'') [] (PInt 1))) = 0"
    using r a c by simp
  then show ?thesis
    unfolding s_def h_def .
qed

section \<open>Schema operations\<close>

lemma create_tables_facts:
  fixes B s h
  defines "X \<equiv> create_tables B s h"
  shows "f_dsn (state X) = f_dsn s" and "f_metadata (state X) = f_metadata s"
    and "f_pool (state X) = f_pool s"
    and "pools_created (events X) = []" and "pools_used (events X) = []"
    and "created_ok (events X) = []"
    and "ddl_calls (events X) =
      (case f_metadata s of None \<Rightarrow> []
       | Some md \<Rightarrow> (case f_engine (state X) of None \<Rightarrow> [] | Some en \<Rightarrow> [(True, md, en)]))"
    and "engines_created (events X) =
      (case f_metadata s of None \<Rightarrow> []
       | Some md \<Rightarrow> (case f_engine s of Some _ \<Rightarrow> []
           | None \<Rightarrow> [(f_dsn s, sa_create_engine B h (f_dsn s))]))"
    and "f_engine (state X) =
      (case f_metadata s of None \<Rightarrow> f_engine s
       | Some md \<Rightarrow> (case f_engine s of Some en \<Rightarrow> Some en
           | None \<Rightarrow> (case sa_create_engine B h (f_dsn s) of Inl _ \<Rightarrow> None | Inr en \<Rightarrow> Some en)))"
  unfolding X_def
  by (auto simp: create_tables_def engine_def events_def state_def Let_def
      split: sum.splits option.splits prod.splits)

lemma drop_tables_facts:
  fixes B s h
  defines "X \<equiv> drop_tables B s h"
  shows "f_dsn (state X) = f_dsn s" and "f_metadata (state X) = f_metadata s"
    and "f_pool (state X) = f_pool s"
    and "pools_created (events X) = []" and "pools_used (events X) = []"
    and "created_ok (events X) = []"
    and "ddl_calls (events X) =
      (case f_metadata s of None \<Rightarrow> []
       | Some md \<Rightarrow> (case f_engine (state X) of None \<Rightarrow> [] | Some en \<Rightarrow> [(False, md, en)]))"
    and "engines_created (events X) =
      (case f_metadata s of None \<Rightarrow> []
       | Some md \<Rightarrow> (case f_engine s of Some _ \<Rightarrow> []
           | None \<Rightarrow> [(f_dsn s, sa_create_engine B h (f_dsn s))]))"
    and "f_engine (state X) =
      (case f_metadata s of None \<Rightarrow> f_engine s
       | Some md \<Rightarrow> (case f_engine s of Some en \<Rightarrow> Some en
           | None \<Rightarrow> (case sa_create_engine B h (f_dsn s) of Inl _ \<Rightarrow> None | Inr en \<Rightarrow> Some en)))"
  unfolding X_def
  by (auto simp: drop_tables_def engine_def events_def state_def Let_def
      split: sum.splits option.splits prod.splits)

lemma init_facts:
  fixes B s h dsn md
  defines "X \<equiv> init B s h dsn md"
  shows "f_dsn (state X) = Some dsn" and "f_metadata (state X) = Some md"
    and "f_pool (state X) = f_pool s"
    and "pools_created (events X) = []" and "pools_used (events X) = []"
    and "created_ok (events X) = []"
    and "ddl_calls (events X) = (case f_engine (state X) of None \<Rightarrow> [] | Some en \<Rightarrow> [(True, md, en)])"
    and "engines_created (events X) =
      (case f_engine s of Some _ \<Rightarrow> [] | None \<Rightarrow> [(Some dsn, sa_create_engine B h (Some dsn))])"
    and "f_engine (state X) =
      (case f_engine s of Some en \<Rightarrow> Some en
       | None \<Rightarrow> (case sa_create_engine B h (Some dsn) of Inl _ \<Rightarrow> None | Inr en \<Rightarrow> Some en))"
  unfolding X_def init_def
  by (simp_all add: create_tables_facts split: option.splits)

lemma close_facts:
  fixes B s h
  defines "X \<equiv> close B s h"
  shows "state X = s"
    and "pools_created (events X) = []" and "pools_used (events X) = []"
    and "created_ok (events X) = []"
    and "ddl_calls (events X) = []" and "engines_created (events X) = []"
  unfolding X_def
  by (auto simp: close_def events_def state_def Let_def split: option.splits)

lemma run_Cons_parts:
  "state (run B s h (c # cs)) = state (run B (state (perform B s h c)) (h @ events (perform B s h c)) cs)"
  "events (run B s h (c # cs)) =
     events (perform B s h c) @ events (run B (state (perform B s h c)) (h @ events (perform B s h c)) cs)"
  "result (run B s h (c # cs)) =
     result (perform B s h c) # result (run B (state (perform B s h c)) (h @ events (perform B s h c)) cs)"
  by (simp_all add: state_def events_def result_def split: prod.splits)

lemma run_Nil_parts:
  "state (run B s h []) = s" "events (run B s h []) = []" "result (run B s h []) = []"
  by (simp_all add: state_def events_def result_def)

declare run.simps [simp del]

text \<open>
  C8: \<open>init\<close> stores the connection string and the metadata (also when table
  creation then fails) and runs \<open>create_all\<close> exactly once, on the instance's
  engine, for the metadata just bound; nothing is run only when no engine could
  be made. Two calls of \<open>init\<close> in a row therefore run \<open>create_all\<close> twice.
\<close>

theorem init_creates_tables_each_time:
  "f_dsn (state (init B s h dsn md)) = Some dsn
   \<and> f_metadata (state (init B s h dsn md)) = Some md
   \<and> ddl_calls (events (init B s h dsn md)) =
       (case f_engine (state (init B s h dsn md)) of None \<Rightarrow> [] | Some en \<Rightarrow> [(True, md, en)])
   \<and> (case f_engine (state (init B s h d1 md1)) of
         None \<Rightarrow> ddl_calls (events (init B s h d1 md1)) = []
       | Some en \<Rightarrow> ddl_calls (events (run B s h [Init d1 md1, Init d2 md2]))
                    = [(True, md1, en), (True, md2, en)])"
  by (simp add: init_facts run_Cons_parts run_Nil_parts reader_append split: option.splits)

theorem init_creates_tables_each_time_witness:
  "f_engine (state (init sample PG_new [] ''pg://a'' (MetaData 0))) = Some (Engine 0)
   \<and> ddl_calls (events (run sample PG_new []
         [Init ''pg://a'' (MetaData 0), Init ''pg://b'' (MetaData 1)]))
      = [(True, MetaData 0, Engine 0), (True, MetaData 1, Engine 0)]"
proof -
  have e: "f_engine (state (init sample PG_new [] ''pg://a'' (MetaData 0))) = Some (Engine 0)"
    by code_simp
  from init_creates_tables_each_time [of sample PG_new "[]" "''pg://a''" "MetaData 0"
      "''pg://a''" "MetaData 0" "''pg://b''" "MetaData 1"]
  show ?thesis
    unfolding e by simp
qed

section \<open>The pool over a sequence of queries\<close>

lemma as_text_silent2:
  "engines_created (snd (as_text B h q)) = []" "ddl_calls (snd (as_text B h q)) = []"
  "warnings (snd (as_text B h q)) = []"
  by (auto simp: as_text_def literalquery_def Let_def split: query.splits sum.splits)

lemma connection_on_conn_state:
  fixes B s h m q args col t
  defines "x \<equiv> connection B s h (on_conn B m q args col t)"
  shows "f_dsn (state x) = f_dsn s" and "f_metadata (state x) = f_metadata s"
    and "f_engine (state x) = f_engine s"
    and "engines_created (events x) = []" and "ddl_calls (events x) = []"
    and "warnings (events x) = []"
    and "pools_created (events x) =
       (case f_pool s of None \<Rightarrow> [(f_dsn s, pg_create_pool B h (f_dsn s))] | Some _ \<Rightarrow> [])"
    and "f_pool (state x) =
       (case f_pool s of Some p \<Rightarrow> Some p
        | None \<Rightarrow> (case pg_create_pool B h (f_dsn s) of Inl _ \<Rightarrow> None | Inr p \<Rightarrow> Some p))"
    and "created_ok (events x) =
       (case f_pool s of Some p \<Rightarrow> [] 
        | None \<Rightarrow> (case f_pool (state x) of None \<Rightarrow> [] | Some p \<Rightarrow> [p]))"
    and "list_all (\<lambda>p. f_pool (state x) = Some p) (pools_used (events x))"
  unfolding x_def
  by (auto simp: connection_def connect_def on_conn_def events_def state_def result_def Let_def
      split: sum.splits option.splits prod.splits)

lemma query_shape_facts:
  assumes "X = (case as_text B h query of
        (Inl e, ev0) \<Rightarrow> (Inl e, s, ev0)
      | (Inr q, ev0) \<Rightarrow>
          (case connection B s (h @ ev0) (on_conn B m q args column timeout) of
             (res, s1, ev1) \<Rightarrow> (res, s1, ev0 @ ev1)))"
  shows "f_dsn (state X) = f_dsn s \<and> f_metadata (state X) = f_metadata s
    \<and> f_engine (state X) = f_engine s
    \<and> engines_created (events X) = [] \<and> ddl_calls (events X) = []
    \<and> warnings (events X) = []
    \<and> pools_created (events X) =
       (case f_pool s of Some _ \<Rightarrow> []
        | None \<Rightarrow> (case as_text B h query of
            (Inl _, _) \<Rightarrow> []
          | (Inr _, ev0) \<Rightarrow> [(f_dsn s, pg_create_pool B (h @ ev0) (f_dsn s))]))
    \<and> created_ok (events X) =
       (case f_pool s of Some p \<Rightarrow> []
        | None \<Rightarrow> (case f_pool (state X) of None \<Rightarrow> [] | Some p \<Rightarrow> [p]))
    \<and> list_all (\<lambda>p. f_pool (state X) = Some p) (pools_used (events X))
    \<and> list_all (\<lambda>d. d = f_dsn s) (map fst (pools_created (events X)))
    \<and> (case f_pool s of None \<Rightarrow> True | Some p \<Rightarrow> f_pool (state X) = Some p)"
proof -
  obtain r ev0 where Pair: "as_text B h query = (r, ev0)"
    by (cases "as_text B h query") auto
  note silent = as_text_silent [of B h query, unfolded Pair, simplified]
    as_text_silent2 [of B h query, unfolded Pair, simplified]
  show ?thesis
  proof (cases r)
    case (Inl e)
    with Pair assms silent show ?thesis
      by (simp add: events_def state_def split: option.splits)
  next
    case (Inr q)
    obtain res s1 ev1
      where c: "connection B s (h @ ev0) (on_conn B m q args column timeout) = (res, s1, ev1)"
      by (cases "connection B s (h @ ev0) (on_conn B m q args column timeout)") auto
    note facts = connection_on_conn_state [of B s "h @ ev0" m q args column timeout,
        unfolded c events_def state_def, simplified]
    from Pair Inr assms c have X: "X = (res, s1, ev0 @ ev1)" by simp
    show ?thesis
      unfolding X using Pair Inr silent facts
      by (auto simp add: events_def state_def reader_append split: option.splits sum.splits)
  qed
qed

lemma perform_query_shape:
  assumes "is_query c"
  obtains m query args column timeout where
    "perform B s h c = (case as_text B h query of
        (Inl e, ev0) \<Rightarrow> (Inl e, s, ev0)
      | (Inr q, ev0) \<Rightarrow>
          (case connection B s (h @ ev0) (on_conn B m q args column timeout) of
             (res, s1, ev1) \<Rightarrow> (res, s1, ev0 @ ev1)))"
  using assms
  by (cases c) (auto simp: fetchval_def fetch_def fetchrow_def execute_def)



section \<open>The cached engine\<close>

lemma perform_engine_kept:
  assumes "f_engine s = Some en"
  shows "f_engine (state (perform B s h c)) = Some en
    \<and> engines_created (events (perform B s h c)) = []
    \<and> list_all (\<lambda>x. snd (snd x) = en) (ddl_calls (events (perform B s h c)))"
proof (cases "is_query c")
  case True
  then obtain m query args column timeout where
    shape: "perform B s h c = (case as_text B h query of
        (Inl e, ev0) \<Rightarrow> (Inl e, s, ev0)
      | (Inr q, ev0) \<Rightarrow>
          (case connection B s (h @ ev0) (on_conn B m q args column timeout) of
             (res, s1, ev1) \<Rightarrow> (res, s1, ev0 @ ev1)))"
    by (rule perform_query_shape)
  from query_shape_facts [OF shape] assms show ?thesis
    by simp
next
  case False
  then show ?thesis
    using assms
    by (cases c)
      (simp_all add: init_facts create_tables_facts drop_tables_facts close_facts
        split: option.splits)
qed

lemma run_engine_kept:
  assumes "f_engine s = Some en"
  shows "f_engine (state (run B s h cs)) = Some en
    \<and> engines_created (events (run B s h cs)) = []
    \<and> list_all (\<lambda>x. snd (snd x) = en) (ddl_calls (events (run B s h cs)))"
  using assms
proof (induction cs arbitrary: s h)
  case Nil
  then show ?case
    by (simp add: run_Nil_parts)
next
  case (Cons c cs)
  note step = perform_engine_kept [OF Cons.prems, of B h c]
  from step have "f_engine (state (perform B s h c)) = Some en"
    by simp
  note rest = Cons.IH [OF this, of "h @ events (perform B s h c)"]
  show ?case
    unfolding run_Cons_parts using step rest
    by (simp add: reader_append)
qed

text \<open>
  C10: once the first \<open>init\<close> has made the engine from its connection string,
  no later call makes another one: whatever calls follow, the instance keeps
  that engine and every \<open>create_all\<close> and \<open>drop_all\<close> runs on it. A second
  \<open>init\<close> binds its own connection string, and \<open>create_tables\<close> and
  \<open>drop_tables\<close> after it still run on the engine of the first.
\<close>

theorem engine_kept_from_first_dsn:
  assumes "f_engine s = None" and "sa_create_engine B h (Some d1) = Inr en"
  shows "engines_created (events (run B s h (Init d1 md1 # cs))) = [(Some d1, Inr en)]
    \<and> f_engine (state (run B s h (Init d1 md1 # cs))) = Some en
    \<and> list_all (\<lambda>x. snd (snd x) = en) (ddl_calls (events (run B s h (Init d1 md1 # cs))))
    \<and> f_dsn (state (run B s h [Init d1 md1, Init d2 md2])) = Some d2
    \<and> ddl_calls (events (run B s h [Init d1 md1, Init d2 md2, Create_tables, Drop_tables]))
        = [(True, md1, en), (True, md2, en), (True, md2, en), (False, md2, en)]"
proof -
  have e1: "f_engine (state (init B s h d1 md1)) = Some en"
    and c1: "engines_created (events (init B s h d1 md1)) = [(Some d1, Inr en)]"
    and d1: "ddl_calls (events (init B s h d1 md1)) = [(True, md1, en)]"
    using assms by (simp_all add: init_facts)
  note rest = run_engine_kept [OF e1, of B "h @ events (init B s h d1 md1)" cs]
  have general: "engines_created (events (run B s h (Init d1 md1 # cs))) = [(Some d1, Inr en)]
    \<and> f_engine (state (run B s h (Init d1 md1 # cs))) = Some en
    \<and> list_all (\<lambda>x. snd (snd x) = en) (ddl_calls (events (run B s h (Init d1 md1 # cs))))"
    unfolding run_Cons_parts using rest c1 d1
    by (simp add: reader_append)
  have two: "f_dsn (state (run B s h [Init d1 md1, Init d2 md2])) = Some d2"
    by (simp add: run_Cons_parts run_Nil_parts init_facts)
  have four: "ddl_calls (events (run B s h [Init d1 md1, Init d2 md2, Create_tables, Drop_tables]))
        = [(True, md1, en), (True, md2, en), (True, md2, en), (False, md2, en)]"
    using e1 d1
    by (simp add: run_Cons_parts run_Nil_parts init_facts create_tables_facts drop_tables_facts
        reader_append)
  from general two four show ?thesis
    by simp
qed

theorem engine_kept_from_first_dsn_witness:
  "f_engine PG_new = None
   \<and> sa_create_engine sample [] (Some ''pg://first'') = Inr (Engine 0)
   \<and> f_dsn (state (run sample PG_new [] [Init ''pg://first'' (MetaData 0),
        Init ''pg://second'' (MetaData 1)])) = Some ''pg://second''
   \<and> engines_created (events (run sample PG_new [] [Init ''pg://first'' (MetaData 0),
        Init ''pg://second'' (MetaData 1), Create_tables, Drop_tables]))
       = [(Some ''pg://first'', Inr (Engine 0))]
   \<and> ddl_calls (events (run sample PG_new [] [Init ''pg://first'' (MetaData 0),
        Init ''pg://second'' (MetaData 1), Create_tables, Drop_tables]))
       = [(True, MetaData 0, Engine 0), (True, MetaData 1, Engine 0),
          (True, MetaData 1, Engine 0), (False, MetaData 1, Engine 0)]"
proof -
  have a: "f_engine PG_new = None"
    by (simp add: PG_new_def)
  have b: "sa_create_engine sample [] (Some ''pg://first'') = Inr (Engine 0)"
    by (simp add: sample_def)
  from engine_kept_from_first_dsn [OF a b, of "MetaData 0"
      "[Init ''pg://second'' (MetaData 1), Create_tables, Drop_tables]" "''pg://second''"
      "MetaData 1"]
  show ?thesis
    using a b by simp
qed

section \<open>Operations before \<open>init\<close>\<close>

lemma connection_on_conn_raised:
  fixes B s h m q args col t
  defines "x \<equiv> connection B s h (on_conn B m q args col t)"
  shows "raised (events x) = (case result x of Inl e \<Rightarrow> [e] | Inr _ \<Rightarrow> [])"
  unfolding x_def
  by (auto simp: connection_def connect_def on_conn_def events_def result_def Let_def
      split: sum.splits option.splits prod.splits)


lemma as_text_failure:
  "(case fst (as_text B h query) of Inl e \<Rightarrow> [e] | Inr _ \<Rightarrow> [])
     = own_errors query @ raised (snd (as_text B h query))"
  by (auto simp: as_text_def literalquery_def Let_def split: query.splits sum.splits)

lemma query_shape_failure:
  assumes "X = (case as_text B h query of
        (Inl e, ev0) \<Rightarrow> (Inl e, s, ev0)
      | (Inr q, ev0) \<Rightarrow>
          (case connection B s (h @ ev0) (on_conn B m q args column timeout) of
             (res, s1, ev1) \<Rightarrow> (res, s1, ev0 @ ev1)))"
  shows "failure X = own_errors query @ raised (events X)"
proof -
  obtain r ev0 where Pair: "as_text B h query = (r, ev0)"
    by (cases "as_text B h query") auto
  note a = as_text_failure [of B h query, unfolded Pair, simplified]
  show ?thesis
  proof (cases r)
    case (Inl e)
    with Pair assms a show ?thesis
      by (simp add: failure_def result_def events_def)
  next
    case (Inr q)
    obtain res s1 ev1
      where c: "connection B s (h @ ev0) (on_conn B m q args column timeout) = (res, s1, ev1)"
      by (cases "connection B s (h @ ev0) (on_conn B m q args column timeout)") auto
    note b = connection_on_conn_raised [of B s "h @ ev0" m q args column timeout,
        unfolded c events_def result_def, simplified]
    from Pair Inr assms c have X: "X = (res, s1, ev0 @ ev1)" by simp
    from a Inr have "own_errors query = []" "raised ev0 = []"
      by simp_all
    with b show ?thesis
      unfolding X by (simp add: failure_def result_def events_def raised_append)
  qed
qed

text \<open>
  C4 as stated fails: the module has no \<open>NotInitializedError\<close>. On a new instance
  \<open>create_tables\<close> raises \<open>AttributeError\<close>, and a query goes to the driver with no
  connection string and returns what the driver returns.
\<close>

theorem uninitialised_ops_counterexample:
  "result (create_tables sample PG_new []) = Inl (no_attribute ''NoneType'' ''create_all'')
   \<and> exn_class (no_attribute ''NoneType'' ''create_all'') = ''AttributeError''
   \<and> \<not> fails_with ''NotInitializedError'' (create_tables sample PG_new [])
   \<and> result (fetch sample PG_new [] (QStr ''SELECT 1'') [] PNone) = Inr (PInt 1)
   \<and> \<not> fails_with ''NotInitializedError'' (fetch sample PG_new [] (QStr ''SELECT 1'') [] PNone)"
  by code_simp

text \<open>
  C4, amended: with no connection string and no metadata bound, \<open>create_tables\<close>
  and \<open>drop_tables\<close> fail with \<open>AttributeError\<close>, leave the instance as it was and
  call no library. A query operation, whatever its query, makes no check of its
  own for \<open>init\<close>: once the query is text and there is no pool yet, it asks the
  driver for a pool with no connection string; and it fails exactly when one of
  its library calls raises, with that exception, or when the query is neither a
  \<open>str\<close> nor has \<open>compile\<close>, with \<open>AttributeError\<close>.
\<close>

theorem uninitialised_ops:
  assumes "f_dsn s = None" and "f_metadata s = None"
  shows "create_tables B s h = (Inl (no_attribute ''NoneType'' ''create_all''), s, [])
    \<and> drop_tables B s h = (Inl (no_attribute ''NoneType'' ''drop_all''), s, [])
    \<and> fails_with ''AttributeError'' (create_tables B s h)
    \<and> fails_with ''AttributeError'' (drop_tables B s h)
    \<and> failure (fetchval B s h query args column timeout)
        = own_errors query @ raised (events (fetchval B s h query args column timeout))
    \<and> failure (fetch B s h query args timeout)
        = own_errors query @ raised (events (fetch B s h query args timeout))
    \<and> failure (fetchrow B s h query args timeout)
        = own_errors query @ raised (events (fetchrow B s h query args timeout))
    \<and> failure (execute B s h query args timeout)
        = own_errors query @ raised (events (execute B s h query args timeout))
    \<and> pools_created (events (fetchval B s h query args column timeout))
        = (case f_pool s of Some _ \<Rightarrow> []
           | None \<Rightarrow> (case as_text B h query of
               (Inl _, _) \<Rightarrow> []
             | (Inr _, ev0) \<Rightarrow> [(None, pg_create_pool B (h @ ev0) None)]))
    \<and> pools_created (events (fetch B s h query args timeout))
        = (case f_pool s of Some _ \<Rightarrow> []
           | None \<Rightarrow> (case as_text B h query of
               (Inl _, _) \<Rightarrow> []
             | (Inr _, ev0) \<Rightarrow> [(None, pg_create_pool B (h @ ev0) None)]))
    \<and> pools_created (events (fetchrow B s h query args timeout))
        = (case f_pool s of Some _ \<Rightarrow> []
           | None \<Rightarrow> (case as_text B h query of
               (Inl _, _) \<Rightarrow> []
             | (Inr _, ev0) \<Rightarrow> [(None, pg_create_pool B (h @ ev0) None)]))
    \<and> pools_created (events (execute B s h query args timeout))
        = (case f_pool s of Some _ \<Rightarrow> []
           | None \<Rightarrow> (case as_text B h query of
               (Inl _, _) \<Rightarrow> []
             | (Inr _, ev0) \<Rightarrow> [(None, pg_create_pool B (h @ ev0) None)]))"
proof -
  have ddl: "create_tables B s h = (Inl (no_attribute ''NoneType'' ''create_all''), s, [])"
    "drop_tables B s h = (Inl (no_attribute ''NoneType'' ''drop_all''), s, [])"
    using assms by (simp_all add: create_tables_def drop_tables_def)
  have cls: "fails_with ''AttributeError'' (create_tables B s h)"
    "fails_with ''AttributeError'' (drop_tables B s h)"
    unfolding ddl by (simp_all add: fails_with_def result_def no_attribute_def)
  have f: "failure (fetchval B s h query args column timeout)
        = own_errors query @ raised (events (fetchval B s h query args column timeout))"
    "failure (fetch B s h query args timeout)
        = own_errors query @ raised (events (fetch B s h query args timeout))"
    "failure (fetchrow B s h query args timeout)
        = own_errors query @ raised (events (fetchrow B s h query args timeout))"
    "failure (execute B s h query args timeout)
        = own_errors query @ raised (events (execute B s h query args timeout))"
    by (rule query_shape_failure; simp add: fetchval_def fetch_def fetchrow_def execute_def)+
  have shape:
    "fetchval B s h query args column timeout = (case as_text B h query of
        (Inl e, ev0) \<Rightarrow> (Inl e, s, ev0)
      | (Inr q, ev0) \<Rightarrow>
          (case connection B s (h @ ev0) (on_conn B M_fetchval q args (Some column) timeout) of
             (res, s1, ev1) \<Rightarrow> (res, s1, ev0 @ ev1)))"
    "fetch B s h query args timeout = (case as_text B h query of
        (Inl e, ev0) \<Rightarrow> (Inl e, s, ev0)
      | (Inr q, ev0) \<Rightarrow>
          (case connection B s (h @ ev0) (on_conn B M_fetch q args None timeout) of
             (res, s1, ev1) \<Rightarrow> (res, s1, ev0 @ ev1)))"
    "fetchrow B s h query args timeout = (case as_text B h query of
        (Inl e, ev0) \<Rightarrow> (Inl e, s, ev0)
      | (Inr q, ev0) \<Rightarrow>
          (case connection B s (h @ ev0) (on_conn B M_fetchrow q args None timeout) of
             (res, s1, ev1) \<Rightarrow> (res, s1, ev0 @ ev1)))"
    "execute B s h query args timeout = (case as_text B h query of
        (Inl e, ev0) \<Rightarrow> (Inl e, s, ev0)
      | (Inr q, ev0) \<Rightarrow>
          (case connection B s (h @ ev0) (on_conn B M_execute q args None timeout) of
             (res, s1, ev1) \<Rightarrow> (res, s1, ev0 @ ev1)))"
    by (simp_all add: fetchval_def fetch_def fetchrow_def execute_def)
  note p = query_shape_facts [OF shape(1)] query_shape_facts [OF shape(2)]
    query_shape_facts [OF shape(3)] query_shape_facts [OF shape(4)]
  have pc:
    "pools_created (events (fetchval B s h query args column timeout))
        = (case f_pool s of Some _ \<Rightarrow> []
           | None \<Rightarrow> (case as_text B h query of
               (Inl _, _) \<Rightarrow> []
             | (Inr _, ev0) \<Rightarrow> [(None, pg_create_pool B (h @ ev0) None)]))"
    "pools_created (events (fetch B s h query args timeout))
        = (case f_pool s of Some _ \<Rightarrow> []
           | None \<Rightarrow> (case as_text B h query of
               (Inl _, _) \<Rightarrow> []
             | (Inr _, ev0) \<Rightarrow> [(None, pg_create_pool B (h @ ev0) None)]))"
    "pools_created (events (fetchrow B s h query args timeout))
        = (case f_pool s of Some _ \<Rightarrow> []
           | None \<Rightarrow> (case as_text B h query of
               (Inl _, _) \<Rightarrow> []
             | (Inr _, ev0) \<Rightarrow> [(None, pg_create_pool B (h @ ev0) None)]))"
    "pools_created (events (execute B s h query args timeout))
        = (case f_pool s of Some _ \<Rightarrow> []
           | None \<Rightarrow> (case as_text B h query of
               (Inl _, _) \<Rightarrow> []
             | (Inr _, ev0) \<Rightarrow> [(None, pg_create_pool B (h @ ev0) None)]))"
    using p unfolding assms(1) by simp_all
  from ddl cls f pc show ?thesis
    by (intro conjI)
qed

theorem uninitialised_ops_witness:
  "f_dsn PG_new = None \<and> f_metadata PG_new = None
   \<and> fails_with ''AttributeError'' (create_tables sample PG_new [])
   \<and> fails_with ''AttributeError'' (drop_tables sample PG_new [])
   \<and> failure (fetch sample PG_new [] (QStatement (Statement 0)) [] PNone) = []
   \<and> raised (events (fetch sample PG_new [] (QStatement (Statement 0)) [] PNone)) = []
   \<and> pools_created (events (fetch sample PG_new [] (QStatement (Statement 0)) [] PNone))
       = [(None, Inr (Pool 2))]
   \<and> failure (execute sample PG_new [] (QOther ''bytes'') [] PNone)
       = [no_attribute ''bytes'' ''compile'']"
proof -
  have a: "f_dsn PG_new = None" and b: "f_metadata PG_new = None"
    by (simp_all add: PG_new_def)
  have c: "f_pool PG_new = None"
    "as_text sample [] (QStatement (Statement 0))
       = (Inr ''SELECT name FROM t WHERE id = 7'',
          [Compile (Statement 0) True (Inr ''SELECT name FROM t WHERE id = 7''),
           Log DEBUG ''SELECT name FROM t WHERE id = 7''])"
    "pg_create_pool sample
       [Compile (Statement 0) True (Inr ''SELECT name FROM t WHERE id = 7''),
        Log DEBUG ''SELECT name FROM t WHERE id = 7''] None = Inr (Pool 2)"
    "failure (fetch sample PG_new [] (QStatement (Statement 0)) [] PNone) = []"
    "raised (events (execute sample PG_new [] (QOther ''bytes'') [] PNone)) = []"
    by code_simp+
  from uninitialised_ops [OF a b, of sample "[]" "QStatement (Statement 0)" "[]" PNone PNone]
    uninitialised_ops [OF a b, of sample "[]" "QOther ''bytes''" "[]" PNone PNone]
  show ?thesis
    using a b c by (simp add: fails_with_def result_def no_attribute_def)
qed

section \<open>What is executed for a structured query\<close>

lemma connection_on_conn_literals:
  "literals (events (connection B s h (on_conn B m q args col t))) = []"
  by (auto simp: connection_def connect_def on_conn_def events_def Let_def
      split: sum.splits option.splits prod.splits)

lemma as_text_literals:
  "literals (snd (as_text B h query)) =
     (case query of QStr _ \<Rightarrow> []
      | _ \<Rightarrow> (case fst (as_text B h query) of Inr q \<Rightarrow> [q] | Inl _ \<Rightarrow> []))"
  by (auto simp: as_text_def literalquery_def Let_def split: query.splits sum.splits)

lemma query_shape_literals:
  assumes "X = (case as_text B h query of
        (Inl e, ev0) \<Rightarrow> (Inl e, s, ev0)
      | (Inr q, ev0) \<Rightarrow>
          (case connection B s (h @ ev0) (on_conn B m q args column timeout) of
             (res, s1, ev1) \<Rightarrow> (res, s1, ev0 @ ev1)))"
  shows "literals (events X) =
     (case query of QStr _ \<Rightarrow> []
      | _ \<Rightarrow> (case fst (as_text B h query) of Inr q \<Rightarrow> [q] | Inl _ \<Rightarrow> []))"
proof -
  obtain r ev0 where Pair: "as_text B h query = (r, ev0)"
    by (cases "as_text B h query") auto
  have "literals (events X) = literals ev0"
  proof (cases r)
    case (Inl e)
    with Pair assms show ?thesis
      by (simp add: events_def)
  next
    case (Inr q)
    obtain res s1 ev1
      where c: "connection B s (h @ ev0) (on_conn B m q args column timeout) = (res, s1, ev1)"
      by (cases "connection B s (h @ ev0) (on_conn B m q args column timeout)") auto
    from connection_on_conn_literals [of B s "h @ ev0" m q args column timeout]
    have "literals ev1 = []"
      unfolding c by (simp add: events_def)
    with Pair Inr assms c show ?thesis
      by (simp add: events_def reader_append)
  qed
  with as_text_literals [of B h query] Pair show ?thesis
    by simp
qed

lemma query_shape_executes_literal:
  assumes "X = (case as_text B h (QStatement st) of
        (Inl e, ev0) \<Rightarrow> (Inl e, s, ev0)
      | (Inr q, ev0) \<Rightarrow>
          (case connection B s (h @ ev0) (on_conn B m q args column timeout) of
             (res, s1, ev1) \<Rightarrow> (res, s1, ev0 @ ev1)))"
  shows "executed (events X) =
      concat (map (\<lambda>lit. map (\<lambda>_. (m, lit, args, column, timeout)) (acquired (events X)))
        (literals (events X)))"
  using query_shape_delegates [OF assms] query_shape_literals [OF assms]
  by (simp add: delegates_def)

text \<open>
  C1 does not hold of the code: for a structured query, each of the four
  operations sends to the driver exactly the text that \<open>_literalquery\<close> rendered,
  on every connection it acquires. The docstring of \<open>_literalquery\<close> forbids this
  ("DO NOT execute the resulting strings"). The last two conjuncts run
  \<open>fetchval\<close> with a statement on the sample backend.
\<close>

theorem literal_text_is_executed:
  "executed (events (fetchval B s h (QStatement st) args column timeout)) =
      concat (map (\<lambda>lit. map (\<lambda>_. (M_fetchval, lit, args, Some column, timeout))
          (acquired (events (fetchval B s h (QStatement st) args column timeout))))
        (literals (events (fetchval B s h (QStatement st) args column timeout))))
   \<and> executed (events (fetch B s h (QStatement st) args timeout)) =
      concat (map (\<lambda>lit. map (\<lambda>_. (M_fetch, lit, args, None, timeout))
          (acquired (events (fetch B s h (QStatement st) args timeout))))
        (literals (events (fetch B s h (QStatement st) args timeout))))
   \<and> executed (events (fetchrow B s h (QStatement st) args timeout)) =
      concat (map (\<lambda>lit. map (\<lambda>_. (M_fetchrow, lit, args, None, timeout))
          (acquired (events (fetchrow B s h (QStatement st) args timeout))))
        (literals (events (fetchrow B s h (QStatement st) args timeout))))
   \<and> executed (events (execute B s h (QStatement st) args timeout)) =
      concat (map (\<lambda>lit. map (\<lambda>_. (M_execute, lit, args, None, timeout))
          (acquired (events (execute B s h (QStatement st) args timeout))))
        (literals (events (execute B s h (QStatement st) args timeout))))
   \<and> literals (events (run sample PG_new [] [Init ''pg://a'' (MetaData 0),
        Fetchval (QStatement (Statement 0)) [] (PInt 0) PNone]))
      = [''SELECT name FROM t WHERE id = 7'']
   \<and> executed (events (run sample PG_new [] [Init ''pg://a'' (MetaData 0),
        Fetchval (QStatement (Statement 0)) [] (PInt 0) PNone]))
      = [(M_fetchval, ''SELECT name FROM t WHERE id = 7'', [], Some (PInt 0), PNone)]"
proof -
  have 1: "executed (events (fetchval B s h (QStatement st) args column timeout)) =
      concat (map (\<lambda>lit. map (\<lambda>_. (M_fetchval, lit, args, Some column, timeout))
          (acquired (events (fetchval B s h (QStatement st) args column timeout))))
        (literals (events (fetchval B s h (QStatement st) args column timeout))))"
    by (rule query_shape_executes_literal) (simp add: fetchval_def)
  have 2: "executed (events (fetch B s h (QStatement st) args timeout)) =
      concat (map (\<lambda>lit. map (\<lambda>_. (M_fetch, lit, args, None, timeout))
          (acquired (events (fetch B s h (QStatement st) args timeout))))
        (literals (events (fetch B s h (QStatement st) args timeout))))"
    by (rule query_shape_executes_literal) (simp add: fetch_def)
  have 3: "executed (events (fetchrow B s h (QStatement st) args timeout)) =
      concat (map (\<lambda>lit. map (\<lambda>_. (M_fetchrow, lit, args, None, timeout))
          (acquired (events (fetchrow B s h (QStatement st) args timeout))))
        (literals (events (fetchrow B s h (QStatement st) args timeout))))"
    by (rule query_shape_executes_literal) (simp add: fetchrow_def)
  have 4: "executed (events (execute B s h (QStatement st) args timeout)) =
      concat (map (\<lambda>lit. map (\<lambda>_. (M_execute, lit, args, None, timeout))
          (acquired (events (execute B s h (QStatement st) args timeout))))
        (literals (events (execute B s h (QStatement st) args timeout))))"
    by (rule query_shape_executes_literal) (simp add: execute_def)
  have 5: "literals (events (run sample PG_new [] [Init ''pg://a'' (MetaData 0),
        Fetchval (QStatement (Statement 0)) [] (PInt 0) PNone]))
      = [''SELECT name FROM t WHERE id = 7'']"
    by code_simp
  have 6: "executed (events (run sample PG_new [] [Init ''pg://a'' (MetaData 0),
        Fetchval (QStatement (Statement 0)) [] (PInt 0) PNone]))
      = [(M_fetchval, ''SELECT name FROM t WHERE id = 7'', [], Some (PInt 0), PNone)]"
    by code_simp
  from 1 2 3 4 5 6 show ?thesis
    by (intro conjI)
qed

section \<open>Closing the pool\<close>

text \<open>
  C2 does not hold of the code: \<open>close\<close> closes the pool but never changes the
  instance, so \<open>_pool\<close> still holds the closed pool. On the sample backend a
  query after \<open>close\<close> creates no new pool and fails on the closed one.
\<close>

theorem close_keeps_closed_pool:
  "state (close B s h) = s
   \<and> hd (events (close B (s\<lparr>f_pool := Some p\<rparr>) h)) = PoolClose p (pool_close B h p)
   \<and> f_pool (state (run sample PG_new [] [Init ''pg://a'' (MetaData 0),
        Fetch (QStr ''SELECT 1'') [] PNone, Close])) = Some (Pool 3)
   \<and> result (run sample PG_new [] [Init ''pg://a'' (MetaData 0),
        Fetch (QStr ''SELECT 1'') [] PNone, Close, Fetch (QStr ''SELECT 1'') [] PNone])
      = [Inr PNone, Inr (PInt 1), Inr PNone, Inl (Exn ''InterfaceError'' ''pool is closed'')]
   \<and> pools_created (events (run sample PG_new [] [Init ''pg://a'' (MetaData 0),
        Fetch (QStr ''SELECT 1'') [] PNone, Close, Fetch (QStr ''SELECT 1'') [] PNone]))
      = [(Some ''pg://a'', Inr (Pool 3))]"
proof -
  have 1: "state (close B s h) = s"
    by (rule close_facts)
  have 0: "hd (events (close B (s\<lparr>f_pool := Some p\<rparr>) h)) = PoolClose p (pool_close B h p)"
    by (simp add: close_def events_def Let_def split: option.splits)
  have 2: "f_pool (state (run sample PG_new [] [Init ''pg://a'' (MetaData 0),
        Fetch (QStr ''SELECT 1'') [] PNone, Close])) = Some (Pool 3)"
    by code_simp
  have 3: "result (run sample PG_new [] [Init ''pg://a'' (MetaData 0),
        Fetch (QStr ''SELECT 1'') [] PNone, Close, Fetch (QStr ''SELECT 1'') [] PNone])
      = [Inr PNone, Inr (PInt 1), Inr PNone, Inl (Exn ''InterfaceError'' ''pool is closed'')]"
    by code_simp
  have 4: "pools_created (events (run sample PG_new [] [Init ''pg://a'' (MetaData 0),
        Fetch (QStr ''SELECT 1'') [] PNone, Close, Fetch (QStr ''SELECT 1'') [] PNone]))
      = [(Some ''pg://a'', Inr (Pool 3))]"
    by code_simp
  from 1 0 2 3 4 show ?thesis
    by (intro conjI)
qed

text \<open>
  C3 does not hold of the code for the second of two calls: since \<open>_pool\<close> is
  still set, no sequence of two \<open>close\<close> calls on an instance with a pool logs a
  warning; the second call closes the pool again and logs at debug level. Only
  \<open>close\<close> on an instance without a pool logs the warning and returns.
\<close>

theorem second_close_logs_no_warning:
  "warnings (events (run B (s\<lparr>f_pool := Some p\<rparr>) h [Close, Close])) = []
   \<and> close B (s\<lparr>f_pool := None\<rparr>) h
      = (Inr PNone, s\<lparr>f_pool := None\<rparr>, [Log WARNING ''Connection pool already closed!''])
   \<and> events (run sample PG_new [] [Init ''pg://a'' (MetaData 0),
        Fetch (QStr ''SELECT 1'') [] PNone, Close, Close])
      = events (run sample PG_new [] [Init ''pg://a'' (MetaData 0),
          Fetch (QStr ''SELECT 1'') [] PNone, Close])
        @ [PoolClose (Pool 3) None, Log DEBUG ''Connection pool closed...'']
   \<and> warnings (events (run sample PG_new [] [Init ''pg://a'' (MetaData 0),
        Fetch (QStr ''SELECT 1'') [] PNone, Close, Close])) = []"
proof -
  have w: "warnings (events (close B (s\<lparr>f_pool := Some p\<rparr>) h')) = []" for h'
    by (simp add: close_def events_def Let_def split: option.splits)
  have 1: "warnings (events (run B (s\<lparr>f_pool := Some p\<rparr>) h [Close, Close])) = []"
    unfolding run_Cons_parts run_Nil_parts perform.simps
    by (simp add: close_facts w reader_append)
  have 2: "close B (s\<lparr>f_pool := None\<rparr>) h
      = (Inr PNone, s\<lparr>f_pool := None\<rparr>, [Log WARNING ''Connection pool already closed!''])"
    by (simp add: close_def)
  have 3: "events (run sample PG_new [] [Init ''pg://a'' (MetaData 0),
        Fetch (QStr ''SELECT 1'') [] PNone, Close, Close])
      = events (run sample PG_new [] [Init ''pg://a'' (MetaData 0),
          Fetch (QStr ''SELECT 1'') [] PNone, Close])
        @ [PoolClose (Pool 3) None, Log DEBUG ''Connection pool closed...'']"
    by code_simp
  have 4: "warnings (events (run sample PG_new [] [Init ''pg://a'' (MetaData 0),
        Fetch (QStr ''SELECT 1'') [] PNone, Close, Close])) = []"
    by code_simp
  from 1 2 3 4 show ?thesis
    by (intro conjI)
qed

section \<open>The steps of a query operation\<close>




section \<open>One pool for queries that run one after another\<close>

















end
